(* ===== verification/Prelude.thy ===== *)
theory Prelude
  imports Complex_Main "HOL-Library.Word"
begin

text \<open>
  Shared vocabulary of the development: the types that name paths and byte strings, a
  small state-and-exception monad in which the Python statements of
  \<^verbatim>\<open>src/deploy.py\<close> are written (a statement either completes with a value or
  raises, and in both cases returns the state it leaves behind, as Python does), the
  \<^verbatim>\<open>try\<close>/\<^verbatim>\<open>except\<close>/\<^verbatim>\<open>finally\<close> combinator, and the generic lemmas on maps
  and on this monad that the component theories use.
\<close>

section \<open>Names of the model's types\<close>

type_synonym path = string
type_synonym byte = "8 word"
type_synonym bytes = "byte list"

text \<open>
  A Python computation over a state \<open>'s\<close>: it returns either a raised exception
  (\<open>Inl\<close>) or a value (\<open>Inr\<close>), together with the state after it. The state after a
  raise matters: files created before the raise are still on disk.
\<close>

type_synonym ('e, 'a, 's) py = "'s \<Rightarrow> ('e + 'a) \<times> 's"

named_theorems py_simps "evaluation rules of the statement combinators"
named_theorems fs_simps "facts on the file store"
named_theorems keeps_intros "rules for statements that keep one predicate on every exit"

section \<open>Statement combinators\<close>

definition returnP :: "'a \<Rightarrow> ('e, 'a, 's) py" where
  "returnP a s = (Inr a, s)"

definition raiseP :: "'e \<Rightarrow> ('e, 'a, 's) py" where
  "raiseP e s = (Inl e, s)"

definition modifyP :: "('s \<Rightarrow> 's) \<Rightarrow> ('e, unit, 's) py" where
  "modifyP f s = (Inr (), f s)"

definition bindP :: "('e, 'a, 's) py \<Rightarrow> ('a \<Rightarrow> ('e, 'b, 's) py) \<Rightarrow> ('e, 'b, 's) py" where
  "bindP m f s = (case m s of (Inl e, s') \<Rightarrow> (Inl e, s') | (Inr a, s') \<Rightarrow> f a s')"

text \<open>Sequential composition of two statements: the second runs only if the first completes.\<close>

definition seqP :: "('e, unit, 's) py \<Rightarrow> ('e, 'b, 's) py \<Rightarrow> ('e, 'b, 's) py" where
  "seqP m k = bindP m (\<lambda>_. k)"

text \<open>
  \<^verbatim>\<open>try: body except ...: handler\<close>: the handler receives the raised exception and
  either handles it or re-raises it (an exception that no \<^verbatim>\<open>except\<close> clause matches
  is re-raised unchanged).
\<close>

definition catchP :: "('e, 'a, 's) py \<Rightarrow> ('e \<Rightarrow> ('e, 'a, 's) py) \<Rightarrow> ('e, 'a, 's) py" where
  "catchP m h s = (case m s of (Inl e, s') \<Rightarrow> h e s' | (Inr a, s') \<Rightarrow> (Inr a, s'))"

text \<open>
  \<^verbatim>\<open>try: ... finally: final\<close>: the final block runs on every path; an exception it
  raises replaces the pending outcome, as in Python.
\<close>

definition finallyP :: "('e, 'a, 's) py \<Rightarrow> ('e, unit, 's) py \<Rightarrow> ('e, 'a, 's) py" where
  "finallyP m f s =
     (case m s of (r, s1) \<Rightarrow> (case f s1 of (Inl e, s2) \<Rightarrow> (Inl e, s2) | (Inr _, s2) \<Rightarrow> (r, s2)))"

definition try_except_finally ::
  "('e, unit, 's) py \<Rightarrow> ('e \<Rightarrow> ('e, unit, 's) py) \<Rightarrow> ('e, unit, 's) py \<Rightarrow> ('e, unit, 's) py" where
  "try_except_finally body handler final = finallyP (catchP body handler) final"

text \<open>\<^verbatim>\<open>if cond: a else: b\<close> on a condition read from the state.\<close>

definition ifP :: "('s \<Rightarrow> bool) \<Rightarrow> ('e, 'a, 's) py \<Rightarrow> ('e, 'a, 's) py \<Rightarrow> ('e, 'a, 's) py" where
  "ifP c a b s = (if c s then a s else b s)"

section \<open>A Hoare judgement for statements\<close>

text \<open>
  \<open>hoare P m Q E\<close>: from a state satisfying \<open>P\<close>, the statement \<open>m\<close> either
  completes with a value \<open>a\<close> in a state satisfying \<open>Q a\<close>, or raises \<open>e\<close> in a
  state satisfying \<open>E e\<close>. Properties that must hold on every exit path (the cleanup of
  temporary files) are proved with it, rule by rule along the program text.
\<close>

definition hoare :: "('s \<Rightarrow> bool) \<Rightarrow> ('e, 'a, 's) py \<Rightarrow> ('a \<Rightarrow> 's \<Rightarrow> bool) \<Rightarrow> ('e \<Rightarrow> 's \<Rightarrow> bool) \<Rightarrow> bool" where
  "hoare P m Q E \<longleftrightarrow>
     (\<forall>s r s'. P s \<longrightarrow> m s = (r, s') \<longrightarrow> (case r of Inl e \<Rightarrow> E e s' | Inr a \<Rightarrow> Q a s'))"

section \<open>Python truthiness of an optional string\<close>

text \<open>\<^verbatim>\<open>if x and ...\<close> on a variable that is \<^verbatim>\<open>None\<close> or a string: false on
  \<^verbatim>\<open>None\<close> and on the empty string.\<close>

definition truthy :: "string option \<Rightarrow> bool" where
  "truthy x = (case x of None \<Rightarrow> False | Some p \<Rightarrow> p \<noteq> [])"

section \<open>Evaluation rules\<close>

lemma returnP_simp [simp, py_simps]: "returnP a s = (Inr a, s)"
  by (simp add: returnP_def)

lemma raiseP_simp [simp, py_simps]: "raiseP e s = (Inl e, s)"
  by (simp add: raiseP_def)

lemma modifyP_simp [simp, py_simps]: "modifyP f s = (Inr (), f s)"
  by (simp add: modifyP_def)

lemma bindP_Inr [py_simps]: "m s = (Inr a, s') \<Longrightarrow> bindP m f s = f a s'"
  by (simp add: bindP_def)

lemma bindP_Inl [py_simps]: "m s = (Inl e, s') \<Longrightarrow> bindP m f s = (Inl e, s')"
  by (simp add: bindP_def)

lemma seqP_Inr [py_simps]: "m s = (Inr u, s') \<Longrightarrow> seqP m k s = k s'"
  by (simp add: seqP_def bindP_def)

lemma seqP_Inl [py_simps]: "m s = (Inl e, s') \<Longrightarrow> seqP m k s = (Inl e, s')"
  by (simp add: seqP_def bindP_def)

lemma seqP_modify [simp, py_simps]: "seqP (modifyP f) k s = k (f s)"
  by (simp add: seqP_def bindP_def)

lemma seqP_assoc: "seqP (seqP a b) c = seqP a (seqP b c)"
  by (rule ext) (simp add: seqP_def bindP_def split: prod.splits sum.splits)

lemma catchP_Inr [py_simps]: "m s = (Inr a, s') \<Longrightarrow> catchP m h s = (Inr a, s')"
  by (simp add: catchP_def)

lemma catchP_Inl [py_simps]: "m s = (Inl e, s') \<Longrightarrow> catchP m h s = h e s'"
  by (simp add: catchP_def)

lemma finallyP_Inr [py_simps]: "m s = (r, s1) \<Longrightarrow> f s1 = (Inr u, s2) \<Longrightarrow> finallyP m f s = (r, s2)"
  by (simp add: finallyP_def)

lemma ifP_simp [simp, py_simps]: "ifP c a b s = (if c s then a s else b s)"
  by (simp add: ifP_def)

subsection \<open>Rules of the Hoare judgement\<close>

lemma hoareI:
  "(\<And>s r s'. P s \<Longrightarrow> m s = (r, s') \<Longrightarrow> (case r of Inl e \<Rightarrow> E e s' | Inr a \<Rightarrow> Q a s')) \<Longrightarrow>
     hoare P m Q E"
  by (auto simp: hoare_def)

lemma hoareD:
  "hoare P m Q E \<Longrightarrow> P s \<Longrightarrow> m s = (r, s') \<Longrightarrow> (case r of Inl e \<Rightarrow> E e s' | Inr a \<Rightarrow> Q a s')"
  by (auto simp: hoare_def)

lemma hoare_returnP: "(\<And>s. P s \<Longrightarrow> Q a s) \<Longrightarrow> hoare P (returnP a) Q E"
  by (simp add: hoare_def)

lemma hoare_raiseP: "(\<And>s. P s \<Longrightarrow> E e s) \<Longrightarrow> hoare P (raiseP e) Q E"
  by (simp add: hoare_def)

lemma hoare_modifyP: "(\<And>s. P s \<Longrightarrow> Q () (f s)) \<Longrightarrow> hoare P (modifyP f) Q E"
  by (simp add: hoare_def)

lemma hoare_bindP:
  "hoare P m R E \<Longrightarrow> (\<And>a. hoare (R a) (f a) Q E) \<Longrightarrow> hoare P (bindP m f) Q E"
  by (fastforce simp: hoare_def bindP_def split: prod.splits sum.splits)

lemma hoare_seqP:
  "hoare P m (\<lambda>_. R) E \<Longrightarrow> hoare R k Q E \<Longrightarrow> hoare P (seqP m k) Q E"
  unfolding seqP_def by (rule hoare_bindP)

lemma hoare_ifP:
  "hoare (\<lambda>s. P s \<and> c s) a Q E \<Longrightarrow> hoare (\<lambda>s. P s \<and> \<not> c s) b Q E \<Longrightarrow> hoare P (ifP c a b) Q E"
  by (simp add: hoare_def)

lemma hoare_catchP:
  "hoare P m Q R \<Longrightarrow> (\<And>e. hoare (R e) (h e) Q E) \<Longrightarrow> hoare P (catchP m h) Q E"
  by (fastforce simp: hoare_def catchP_def split: prod.splits sum.splits)

text \<open>A \<^verbatim>\<open>finally\<close> block that brings every state it starts from to \<open>S\<close>
  ends every path of the statement in \<open>S\<close>.\<close>

lemma hoare_finallyP:
  "hoare P m (\<lambda>_. R) (\<lambda>_. R) \<Longrightarrow> hoare R f (\<lambda>_. S) (\<lambda>_. S) \<Longrightarrow>
     hoare P (finallyP m f) (\<lambda>_. S) (\<lambda>_. S)"
  by (fastforce simp: hoare_def finallyP_def split: prod.splits sum.splits)

lemma hoare_strengthen:
  "hoare P m Q E \<Longrightarrow> (\<And>s. P' s \<Longrightarrow> P s) \<Longrightarrow> (\<And>a s. Q a s \<Longrightarrow> Q' a s) \<Longrightarrow>
     (\<And>e s. E e s \<Longrightarrow> E' e s) \<Longrightarrow> hoare P' m Q' E'"
  by (fastforce simp: hoare_def split: sum.splits)

lemma hoare_pre_cases:
  "(\<And>s. P s \<Longrightarrow> hoare (\<lambda>t. t = s) m Q E) \<Longrightarrow> hoare P m Q E"
  by (fastforce simp: hoare_def)

subsection \<open>Statements that keep a predicate\<close>

text \<open>
  The special case \<open>hoare P m (\<lambda>_. P) (\<lambda>_. P)\<close>: \<open>m\<close> keeps \<open>P\<close> whether it
  completes or raises. The rules below follow the syntax of the statement, so that
  \<open>intro keeps_intros\<close> reduces such a goal to the primitive statements.
\<close>

lemma keeps_seqP [keeps_intros]:
  "hoare P m (\<lambda>_. P) (\<lambda>_. P) \<Longrightarrow> hoare P k (\<lambda>_. P) (\<lambda>_. P) \<Longrightarrow>
     hoare P (seqP m k) (\<lambda>_. P) (\<lambda>_. P)"
  by (rule hoare_seqP)

lemma keeps_bindP [keeps_intros]:
  "hoare P m (\<lambda>_. P) (\<lambda>_. P) \<Longrightarrow> (\<And>a. hoare P (f a) (\<lambda>_. P) (\<lambda>_. P)) \<Longrightarrow>
     hoare P (bindP m f) (\<lambda>_. P) (\<lambda>_. P)"
  by (rule hoare_bindP)

lemma keeps_catchP [keeps_intros]:
  "hoare P m (\<lambda>_. P) (\<lambda>_. P) \<Longrightarrow> (\<And>e. hoare P (h e) (\<lambda>_. P) (\<lambda>_. P)) \<Longrightarrow>
     hoare P (catchP m h) (\<lambda>_. P) (\<lambda>_. P)"
  by (rule hoare_catchP)

lemma keeps_ifP [keeps_intros]:
  assumes "hoare P a (\<lambda>_. P) (\<lambda>_. P)" and "hoare P b (\<lambda>_. P) (\<lambda>_. P)"
  shows "hoare P (ifP c a b) (\<lambda>_. P) (\<lambda>_. P)"
proof (rule hoare_ifP)
  show "hoare (\<lambda>s. P s \<and> c s) a (\<lambda>_. P) (\<lambda>_. P)" by (rule hoare_strengthen [OF assms(1)]) simp_all
  show "hoare (\<lambda>s. P s \<and> \<not> c s) b (\<lambda>_. P) (\<lambda>_. P)" by (rule hoare_strengthen [OF assms(2)]) simp_all
qed

lemma keeps_If [keeps_intros]:
  "hoare P a Q E \<Longrightarrow> hoare P b Q E \<Longrightarrow> hoare P (if c then a else b) Q E"
  by (cases c) simp_all

lemma keeps_case_option [keeps_intros]:
  "hoare P a Q E \<Longrightarrow> (\<And>x. hoare P (b x) Q E) \<Longrightarrow> hoare P (case x of None \<Rightarrow> a | Some y \<Rightarrow> b y) Q E"
  by (cases x) simp_all

lemma keeps_case_prod [keeps_intros]:
  "(\<And>x y. hoare P (f x y) Q E) \<Longrightarrow> hoare P (case p of (x, y) \<Rightarrow> f x y) Q E"
  by (cases p) simp

lemma keeps_returnP [keeps_intros]: "hoare P (returnP a) (\<lambda>_. P) E"
  by (simp add: hoare_def)

lemma keeps_raiseP [keeps_intros]: "hoare P (raiseP e) Q (\<lambda>_. P)"
  by (simp add: hoare_def)

lemma keeps_modifyP [keeps_intros]: "(\<And>s. P s \<Longrightarrow> P (f s)) \<Longrightarrow> hoare P (modifyP f) (\<lambda>_. P) E"
  by (simp add: hoare_def)

lemma keeps_finallyP [keeps_intros]:
  "hoare P m (\<lambda>_. P) (\<lambda>_. P) \<Longrightarrow> hoare P f (\<lambda>_. P) (\<lambda>_. P) \<Longrightarrow>
     hoare P (finallyP m f) (\<lambda>_. P) (\<lambda>_. P)"
  by (rule hoare_finallyP)

text \<open>A predicate kept on every exit holds after the statement, whatever its outcome.\<close>

lemma keeps_run: "hoare P m (\<lambda>_. P) (\<lambda>_. P) \<Longrightarrow> P s \<Longrightarrow> P (snd (m s))"
  by (cases "m s") (auto simp: hoare_def split: sum.splits)

section \<open>Maps\<close>

text \<open>Adding a key that was absent and then deleting it restores the map.\<close>

lemma map_upd_fresh_del [fs_simps]: "m p = None \<Longrightarrow> (m(p := x))(p := None) = m"
  by (rule ext) simp

lemma map_upd_upd_other [fs_simps]:
  "p \<noteq> q \<Longrightarrow> (m(p := x))(q := y) = (m(q := y))(p := x)"
  by (rule fun_upd_twist)

lemma map_del_absent [fs_simps]: "m p = None \<Longrightarrow> m(p := None) = m"
  by (rule ext) simp

lemma truthy_simps [simp]: "\<not> truthy None" "truthy (Some p) = (p \<noteq> [])"
  by (simp_all add: truthy_def)

end
