(* ===== verification/Runtime.thy ===== *)
theory Runtime
  imports Prelude
begin

text \<open>
  The environment that \<^verbatim>\<open>src/deploy.py\<close> runs in, as far as the program observes it:
  the file store and the \<^verbatim>\<open>tempfile\<close>/\<^verbatim>\<open>os\<close> calls it makes, the Python exceptions it
  raises or catches, the Streamlit elements it emits, and the external collaborators
  (the YOLO model, ffmpeg, OpenCV's decoder and encoder) as parameters of an
  \<open>env\<close> record. None of this is code of the repository: the library calls are written
  from the documented behaviour of the Python standard library, Streamlit and OpenCV, and
  the collaborators stay abstract, so every theorem holds for every behaviour of them
  unless a hypothesis says otherwise.
\<close>

section \<open>Exceptions\<close>

text \<open>
  The exceptions the program can meet. \<open>CalledProcessError\<close> carries return code,
  command, captured stdout and stderr, as \<^verbatim>\<open>subprocess\<close> builds it. \<open>BaseExc\<close> is a
  \<^verbatim>\<open>BaseException\<close> that is not an \<^verbatim>\<open>Exception\<close> (\<^verbatim>\<open>KeyboardInterrupt\<close>,
  \<^verbatim>\<open>SystemExit\<close>, Streamlit's stop and rerun signals): no \<^verbatim>\<open>except Exception\<close> catches it.
\<close>

datatype pyexc =
    CalledProcessError int "string list" string string
  | FileExistsError string
  | FileNotFoundError string
  | IndexError string
  | RuntimeError string
  | BaseExc string

fun is_Exception :: "pyexc \<Rightarrow> bool" where
  "is_Exception (BaseExc _) = False"
| "is_Exception _ = True"

text \<open>\<^verbatim>\<open>str(e)\<close>, as the f-strings of the handlers print it.\<close>

fun exc_str :: "pyexc \<Rightarrow> string" where
  "exc_str (CalledProcessError rc cmd out err) = ''Command returned non-zero exit status''"
| "exc_str (FileExistsError m) = m"
| "exc_str (FileNotFoundError m) = m"
| "exc_str (IndexError m) = m"
| "exc_str (RuntimeError m) = m"
| "exc_str (BaseExc m) = m"

section \<open>Streamlit elements\<close>

text \<open>One constructor per Streamlit call of the program, with the arguments it passes.\<close>

datatype ui =
    Title string
  | Write string
  | Error string
  | Info string
  | Success string
  | FileUploader string "string list"
  | Video bytes
  | DownloadButton string bytes string string

section \<open>The file store and \<^verbatim>\<open>tempfile\<close>\<close>

text \<open>
  The files are a map from paths to contents. \<^verbatim>\<open>tempfile\<close> draws candidate names from
  a random name sequence; the model keeps that sequence as \<open>rng\<close> and its position as
  \<open>rng_pos\<close>, so that a run is a function of the state.
\<close>

record os_state =
  files :: "path \<rightharpoonup> bytes"
  tmpdir :: path
  rng :: "nat \<Rightarrow> string"
  rng_pos :: nat

definition TMP_MAX :: nat where
  "TMP_MAX = 238328"

text \<open>
  \<^verbatim>\<open>tempfile._mkstemp_inner\<close>: try up to \<^verbatim>\<open>TMP_MAX\<close> names (\<^verbatim>\<open>os.TMP_MAX\<close>, 238328 on Linux)
  \<^verbatim>\<open>dir/tmp<name><suffix>\<close>; a name that exists is skipped
  (\<^verbatim>\<open>os.open\<close> with \<^verbatim>\<open>O_EXCL\<close> fails), the first free one is created empty.
  The fuel is the loop's \<^verbatim>\<open>range(TMP_MAX)\<close>.
\<close>

fun mkstemp_try :: "nat \<Rightarrow> string \<Rightarrow> os_state \<Rightarrow> (pyexc + path) \<times> os_state" where
  "mkstemp_try 0 suf s = (Inl (FileExistsError ''No usable temporary file name found''), s)"
| "mkstemp_try (Suc k) suf s =
     (let name = tmpdir s @ ''/tmp'' @ rng s (rng_pos s) @ suf;
          s' = s\<lparr>rng_pos := Suc (rng_pos s)\<rparr>
      in if files s name \<noteq> None then mkstemp_try k suf s'
         else (Inr name, s'\<lparr>files := (files s')(name \<mapsto> [])\<rparr>))"

text \<open>The \<open>k\<close>-th name \<^verbatim>\<open>mkstemp\<close> tries from state \<open>s\<close>, counting from 0.\<close>

definition tmp_name :: "os_state \<Rightarrow> nat \<Rightarrow> string \<Rightarrow> path" where
  "tmp_name s k suf = tmpdir s @ ''/tmp'' @ rng s (rng_pos s + k) @ suf"

text \<open>\<^verbatim>\<open>tempfile.NamedTemporaryFile(delete=False, suffix=suf)\<close> followed by
  \<^verbatim>\<open>.name\<close> and \<^verbatim>\<open>.close()\<close>: an empty fresh file whose name is returned.\<close>

definition named_temporary_file :: "string \<Rightarrow> os_state \<Rightarrow> (pyexc + path) \<times> os_state" where
  "named_temporary_file suf s = mkstemp_try TMP_MAX suf s"

definition path_exists :: "os_state \<Rightarrow> path \<Rightarrow> bool" where
  "path_exists s p = (files s p \<noteq> None)"

definition getsize :: "os_state \<Rightarrow> path \<Rightarrow> pyexc + nat" where
  "getsize s p = (case files s p of None \<Rightarrow> Inl (FileNotFoundError p) | Some b \<Rightarrow> Inr (length b))"

definition read_file :: "os_state \<Rightarrow> path \<Rightarrow> pyexc + bytes" where
  "read_file s p = (case files s p of None \<Rightarrow> Inl (FileNotFoundError p) | Some b \<Rightarrow> Inr b)"

definition write_file :: "path \<Rightarrow> bytes \<Rightarrow> os_state \<Rightarrow> os_state" where
  "write_file p b s = s\<lparr>files := (files s)(p \<mapsto> b)\<rparr>"

definition os_remove :: "path \<Rightarrow> os_state \<Rightarrow> (pyexc + unit) \<times> os_state" where
  "os_remove p s = (if files s p = None then (Inl (FileNotFoundError p), s)
                    else (Inr (), s\<lparr>files := (files s)(p := None)\<rparr>))"

section \<open>\<^verbatim>\<open>os.path.splitext\<close>\<close>

text \<open>
  \<^verbatim>\<open>posixpath.splitext\<close>: the extension starts at the last dot of the last path
  component, unless every character before that dot in the component is a dot
  (\<^verbatim>\<open>.bashrc\<close> has no extension).
\<close>

definition splitext :: "string \<Rightarrow> string \<times> string" where
  "splitext p =
     (let base = rev (takeWhile (\<lambda>c. c \<noteq> CHR ''/'') (rev p));
          head = take (length p - length base) p;
          k = length (takeWhile (\<lambda>c. c \<noteq> CHR ''.'') (rev base))
      in if k = length base \<or> (\<forall>c \<in> set (take (length base - Suc k) base). c = CHR ''.'')
         then (p, [])
         else (head @ take (length base - Suc k) base, drop (length base - Suc k) base))"

section \<open>The external collaborators\<close>

text \<open>
  A decoded video as OpenCV's \<^verbatim>\<open>VideoCapture\<close> reports it: the frame size, the frame
  rate and the frames in order.
\<close>

record 'f video =
  vid_width :: nat
  vid_height :: nat
  vid_fps :: rat
  vid_frames :: "'f list"

text \<open>
  The collaborators, left abstract:
  \<^item> \<open>yolo\<close>: \<^verbatim>\<open>ultralytics.YOLO(path)\<close>, given the contents of the file (or none);
  \<^item> \<open>ffmpeg_tool\<close>: the ffmpeg binary, given its arguments and the contents of its input
    file; it fails to start (\<open>Inl\<close>), or exits with a return code, its stderr text and
    the contents it writes to its output file (\<open>None\<close>: it writes nothing);
  \<^item> \<open>decode\<close>: OpenCV's decoder on a file's contents (\<open>None\<close>: cannot open);
  \<^item> \<open>predict\<close>: \<^verbatim>\<open>model(frame, imgsz=..., conf=...)\<close>, the list of results or a raise;
  \<^item> \<open>plot\<close>: \<^verbatim>\<open>results[i].plot()\<close>, the annotated frame;
  \<^item> \<open>frame_dims\<close>: width and height of a frame;
  \<^item> \<open>writer_ok\<close>: whether the encoder for a codec tag, rate and size is available;
  \<^item> \<open>stream\<close>: the bytes an opened writer has written to its file before it is
    released: the container header and the frames written so far, without the final
    index a release appends;
  \<^item> \<open>encode\<close>: the bytes a released writer leaves in its file.
\<close>

record ('m, 'r, 'f) env =
  yolo :: "path \<Rightarrow> bytes option \<Rightarrow> pyexc + 'm"
  ffmpeg_tool :: "string list \<Rightarrow> bytes option \<Rightarrow> pyexc + (int \<times> string \<times> bytes option)"
  decode :: "bytes \<Rightarrow> 'f video option"
  predict :: "'m \<Rightarrow> 'f \<Rightarrow> nat \<Rightarrow> rat \<Rightarrow> pyexc + 'r list"
  plot :: "'r \<Rightarrow> 'f"
  frame_dims :: "'f \<Rightarrow> int \<times> int"
  writer_ok :: "32 word \<Rightarrow> rat \<Rightarrow> int \<times> int \<Rightarrow> bool"
  stream :: "32 word \<Rightarrow> rat \<Rightarrow> int \<times> int \<Rightarrow> 'f list \<Rightarrow> bytes"
  encode :: "32 word \<Rightarrow> rat \<Rightarrow> int \<times> int \<Rightarrow> 'f list \<Rightarrow> bytes"

section \<open>The state of a script run\<close>

text \<open>
  The state a run of \<^verbatim>\<open>main()\<close> threads: the file store, the process-wide resource
  cache of \<^verbatim>\<open>@st.cache_resource\<close> (a map from the argument to the cached value), the
  elements emitted so far on the page, and the three local path variables of
  \<^verbatim>\<open>main\<close> that its \<^verbatim>\<open>finally\<close> block reads.
\<close>

record 'm sess =
  os :: os_state
  cache :: "path \<rightharpoonup> 'm"
  ui :: "ui list"
  input_video_path :: "path option"
  downscaled_video_path :: "path option"
  output_video_path :: "path option"

definition emit :: "ui \<Rightarrow> ('e, unit, 'm sess) py" where
  "emit u s = (Inr (), s\<lparr>ui := ui s @ [u]\<rparr>)"

text \<open>Lift an operation on the file store that may raise to the session state.\<close>

definition on_os :: "(os_state \<Rightarrow> ('e + 'a) \<times> os_state) \<Rightarrow> ('e, 'a, 'm sess) py" where
  "on_os f s = (let (r, o') = f (os s) in (r, s\<lparr>os := o'\<rparr>))"

section \<open>Lemmas on the file store\<close>

lemma emit_simp [simp, py_simps]: "emit u s = (Inr (), s\<lparr>ui := ui s @ [u]\<rparr>)"
  by (simp add: emit_def)

lemma write_file_write_file [simp]: "write_file p a (write_file p b s) = write_file p a s"
  by (simp add: write_file_def)

lemma mkstemp_try_fresh:
  "mkstemp_try k suf s = (Inr p, s') \<Longrightarrow>
     files s p = None \<and> files s' = (files s)(p \<mapsto> [])"
proof (induction k arbitrary: s)
  case 0
  then show ?case by simp
next
  case (Suc k)
  let ?name = "tmpdir s @ ''/tmp'' @ rng s (rng_pos s) @ suf"
  show ?case
  proof (cases "files s ?name = None")
    case True
    with Suc.prems show ?thesis by (auto simp: Let_def)
  next
    case False
    with Suc.prems have "mkstemp_try k suf (s\<lparr>rng_pos := Suc (rng_pos s)\<rparr>) = (Inr p, s')"
      by (simp add: Let_def)
    from Suc.IH [OF this] show ?thesis by simp
  qed
qed

lemma mkstemp_try_Inl_files:
  "mkstemp_try k suf s = (Inl e, s') \<Longrightarrow> files s' = files s"
  by (induction k arbitrary: s) (auto simp: Let_def split: if_splits)

lemma mkstemp_try_tmpdir:
  "tmpdir (snd (mkstemp_try k suf s)) = tmpdir s"
  by (induction k arbitrary: s) (auto simp: Let_def)

lemma named_temporary_file_fresh [fs_simps]:
  "named_temporary_file suf s = (Inr p, s') \<Longrightarrow>
     files s p = None \<and> files s' = (files s)(p \<mapsto> [])"
  unfolding named_temporary_file_def by (rule mkstemp_try_fresh)

lemma named_temporary_file_Inl [fs_simps]:
  "named_temporary_file suf s = (Inl e, s') \<Longrightarrow> files s' = files s"
  unfolding named_temporary_file_def by (rule mkstemp_try_Inl_files)

lemma named_temporary_file_nonempty:
  "named_temporary_file suf s = (Inr p, s') \<Longrightarrow> p \<noteq> []"
proof -
  have "mkstemp_try k suf s = (Inr p, s') \<Longrightarrow> p \<noteq> []" for k
    by (induction k arbitrary: s) (auto simp: Let_def split: if_splits)
  then show "named_temporary_file suf s = (Inr p, s') \<Longrightarrow> p \<noteq> []"
    by (simp add: named_temporary_file_def)
qed

text \<open>Enough fuel: if one of the next \<open>k\<close> candidate names is free, \<^verbatim>\<open>mkstemp\<close>
  succeeds; if the first is free, it is the one created.\<close>

lemma mkstemp_try_succeeds:
  "j < k \<Longrightarrow> files s (tmpdir s @ ''/tmp'' @ rng s (rng_pos s + j) @ suf) = None \<Longrightarrow>
     \<exists>p s'. mkstemp_try k suf s = (Inr p, s')"
proof (induction k arbitrary: s j)
  case 0
  then show ?case by simp
next
  case (Suc k)
  show ?case
  proof (cases "files s (tmpdir s @ ''/tmp'' @ rng s (rng_pos s) @ suf) = None")
    case True
    then show ?thesis by (simp add: Let_def)
  next
    case False
    with Suc.prems obtain j' where j: "j = Suc j'" by (cases j) auto
    with Suc.prems have "\<exists>p s'. mkstemp_try k suf (s\<lparr>rng_pos := Suc (rng_pos s)\<rparr>) = (Inr p, s')"
      by (intro Suc.IH [of j']) simp_all
    with False show ?thesis by (simp add: Let_def)
  qed
qed

lemma named_temporary_file_first:
  "files s (tmpdir s @ ''/tmp'' @ rng s (rng_pos s) @ suf) = None \<Longrightarrow>
     named_temporary_file suf s =
       (Inr (tmpdir s @ ''/tmp'' @ rng s (rng_pos s) @ suf),
        s\<lparr>rng_pos := Suc (rng_pos s),
          files := (files s)(tmpdir s @ ''/tmp'' @ rng s (rng_pos s) @ suf \<mapsto> [])\<rparr>)"
proof -
  assume free: "files s (tmpdir s @ ''/tmp'' @ rng s (rng_pos s) @ suf) = None"
  have "named_temporary_file suf s = mkstemp_try (Suc 238327) suf s"
    by (simp add: named_temporary_file_def TMP_MAX_def)
  also have "\<dots> = (Inr (tmpdir s @ ''/tmp'' @ rng s (rng_pos s) @ suf),
        s\<lparr>rng_pos := Suc (rng_pos s),
          files := (files s)(tmpdir s @ ''/tmp'' @ rng s (rng_pos s) @ suf \<mapsto> [])\<rparr>)"
    unfolding mkstemp_try.simps(2) using free by (simp add: Let_def)
  finally show ?thesis .
qed

end
