(* ===== verification/ModelLoader.thy ===== *)
theory ModelLoader
  imports Runtime
begin

text \<open>
  The model loader, \<^verbatim>\<open>load_model\<close> of \<^verbatim>\<open>src/deploy.py\<close> (lines 8--11): a call of
  \<^verbatim>\<open>YOLO(model_path)\<close> under Streamlit's \<^verbatim>\<open>@st.cache_resource\<close>. The decorator
  keeps one process-wide value per argument and does not cache a call that raises. The
  cache is the \<open>cache\<close> field of the session state; the lemmas show that a cached value is
  returned without loading again and never changes, that a failed load leaves the state
  unchanged, and that the cache only ever holds the paths it was asked for.
\<close>

definition load_model :: "('m, 'r, 'f) env \<Rightarrow> path \<Rightarrow> (pyexc, 'm, 'm sess) py" where
  "load_model env model_path s =
     (case cache s model_path of
        Some model \<Rightarrow> (Inr model, s)
      | None \<Rightarrow>
          (case yolo env model_path (files (os s) model_path) of
             Inl e \<Rightarrow> (Inl e, s)
           | Inr model \<Rightarrow> (Inr model, s\<lparr>cache := (cache s)(model_path \<mapsto> model)\<rparr>)))"

section \<open>Functional behaviour\<close>

lemma load_model_only_cache:
  "load_model env p s = (r, s') \<Longrightarrow> s' = s \<or> s' = s\<lparr>cache := cache s'\<rparr>"
  by (auto simp: load_model_def split: option.splits sum.splits)

lemma load_model_os [simp]: "os (snd (load_model env p s)) = os s"
  by (auto simp: load_model_def split: option.splits sum.splits)

lemma load_model_ui [simp]: "ui (snd (load_model env p s)) = ui s"
  by (auto simp: load_model_def split: option.splits sum.splits)

lemma load_model_cache_mono:
  "load_model env p s = (r, s') \<Longrightarrow> cache s q = Some m \<Longrightarrow> cache s' q = Some m"
  by (auto simp: load_model_def split: option.splits sum.splits)

lemma load_model_dom_cache:
  "load_model env p s = (r, s') \<Longrightarrow> dom (cache s') \<subseteq> insert p (dom (cache s))"
  by (auto simp: load_model_def split: option.splits sum.splits)

lemma load_model_Inr_cached:
  "load_model env p s = (Inr m, s') \<Longrightarrow> cache s' p = Some m"
  by (auto simp: load_model_def split: option.splits sum.splits)

section \<open>Properties of the cache\<close>

text \<open>
  C3. Memoisation: once \<^verbatim>\<open>load_model(path)\<close> has returned a model, every later call with
  the same path returns that same model and changes nothing, whatever the model file and
  the loader would do now.
\<close>

theorem load_model_memoised:
  assumes "load_model env p s = (Inr m, s')"
  shows "load_model env' p s' = (Inr m, s')"
proof -
  from assms have "cache s' p = Some m" by (rule load_model_Inr_cached)
  then show ?thesis by (simp add: load_model_def)
qed

text \<open>
  C4. A load that raises is not cached: the state is left exactly as it was (the cache
  still has no entry for the path), so the next script run tries to load again.
\<close>

theorem load_model_failure_not_cached:
  assumes "load_model env p s = (Inl e, s')"
  shows "s' = s \<and> cache s' p = None"
  using assms by (auto simp: load_model_def split: option.splits sum.splits)

text \<open>
  C5. The cache is stable: an entry, once made, is never replaced or removed by a call,
  and a call adds at most the entry for its own argument.
\<close>

theorem load_model_cache_stable:
  assumes "load_model env p s = (r, s')"
  shows "(\<forall>q m. cache s q = Some m \<longrightarrow> cache s' q = Some m) \<and>
         dom (cache s') \<subseteq> insert p (dom (cache s))"
  using load_model_cache_mono [OF assms] load_model_dom_cache [OF assms] by blast

end
