(* ===== verification/Transcoder.thy ===== *)
theory Transcoder
  imports Runtime
begin

text \<open>
  The transcoding step of \<^verbatim>\<open>main\<close> in \<^verbatim>\<open>src/deploy.py\<close> (lines 81--89): the ffmpeg
  argument list, the scale filter it passes on line 85, and the call
  \<^verbatim>\<open>subprocess.run(..., check=True)\<close>. The filter's two expressions are written as
  terms of ffmpeg's expression language; their meaning is ffmpeg's: the expressions are
  evaluated with \<open>a\<close> bound to the input's aspect ratio, and a negative result \<open>-n\<close>
  asks for the other side scaled to keep the aspect ratio, rounded to the nearest
  multiple of \<open>n\<close> (\<^verbatim>\<open>libavfilter/scale_eval.c\<close>). The lemmas give the output
  size for every input size: both sides even, the long side 1280, the short side the
  proportional value rounded to an even number.
\<close>

section \<open>The ffmpeg command\<close>

definition QUOTE :: char where
  "QUOTE = CHR 0x27"

text \<open>ffmpeg's expression language, as far as the filter uses it.\<close>

datatype fexpr =
    FNum nat
  | FNeg fexpr
  | FVar string
  | FGt fexpr fexpr
  | FIf fexpr fexpr fexpr

text \<open>\<^verbatim>\<open>if(gt(a,1),1280,-2)\<close> and \<^verbatim>\<open>if(gt(a,1),-2,1280)\<close>: the width and height
  expressions of line 85.\<close>

definition scale_w_expr :: fexpr where
  "scale_w_expr = FIf (FGt (FVar ''a'') (FNum 1)) (FNum 1280) (FNeg (FNum 2))"

definition scale_h_expr :: fexpr where
  "scale_h_expr = FIf (FGt (FVar ''a'') (FNum 1)) (FNeg (FNum 2)) (FNum 1280)"

text \<open>The filter argument as the program writes it on line 85, quotes included.\<close>

definition scale_filter :: string where
  "scale_filter =
     ''scale='' @ [QUOTE] @ ''if(gt(a,1),1280,-2)'' @ [QUOTE] @ '':'' @
     [QUOTE] @ ''if(gt(a,1),-2,1280)'' @ [QUOTE]"

definition ffmpeg_command :: "path \<Rightarrow> path \<Rightarrow> string list" where
  "ffmpeg_command input_path downscaled_path =
     [''ffmpeg'', ''-y'', ''-i'', input_path, ''-vf'', scale_filter, downscaled_path]"

section \<open>ffmpeg's evaluation of the scale filter\<close>

text \<open>ffmpeg's \<^verbatim>\<open>av_expr_eval\<close> on these constructors: \<^verbatim>\<open>gt(x,y)\<close> is 1 or 0,
  \<^verbatim>\<open>if(x,y,z)\<close> is \<open>y\<close> when \<open>x\<close> is non-zero and \<open>z\<close> otherwise.\<close>

primrec feval :: "(string \<Rightarrow> rat) \<Rightarrow> fexpr \<Rightarrow> rat" where
  "feval vars (FNum n) = of_nat n"
| "feval vars (FNeg e) = - feval vars e"
| "feval vars (FVar v) = vars v"
| "feval vars (FGt a b) = (if feval vars b < feval vars a then 1 else 0)"
| "feval vars (FIf c t e) = (if feval vars c \<noteq> 0 then feval vars t else feval vars e)"

text \<open>C's conversion \<^verbatim>\<open>(int) x\<close> of a double: truncation towards zero.\<close>

definition c_int :: "rat \<Rightarrow> int" where
  "c_int x = (if 0 \<le> x then \<lfloor>x\<rfloor> else \<lceil>x\<rceil>)"

text \<open>The variables of the scale filter: input and output size and the aspect ratio
  \<open>a = iw / ih\<close>. The output size is not known at the first evaluation of the width
  (ffmpeg binds it to NaN there; the program's expressions never read it).\<close>

definition scale_vars :: "nat \<Rightarrow> nat \<Rightarrow> int \<Rightarrow> int \<Rightarrow> string \<Rightarrow> rat" where
  "scale_vars iw ih ow oh v =
     (if v = ''in_w'' \<or> v = ''iw'' then of_nat iw
      else if v = ''in_h'' \<or> v = ''ih'' then of_nat ih
      else if v = ''out_w'' \<or> v = ''ow'' then of_int ow
      else if v = ''out_h'' \<or> v = ''oh'' then of_int oh
      else if v = ''a'' then of_nat iw / of_nat ih
      else 0)"

text \<open>\<^verbatim>\<open>ff_scale_eval_dimensions\<close>: width, then height, then width again; a result of
  0 stands for the input's size.\<close>

definition scale_eval :: "fexpr \<Rightarrow> fexpr \<Rightarrow> nat \<Rightarrow> nat \<Rightarrow> int \<times> int" where
  "scale_eval we he iw ih =
     (let r1 = c_int (feval (scale_vars iw ih 0 0) we);
          w1 = (if r1 = 0 then int iw else r1);
          r2 = c_int (feval (scale_vars iw ih w1 0) he);
          h = (if r2 = 0 then int ih else r2);
          r3 = c_int (feval (scale_vars iw ih w1 h) we);
          w = (if r3 = 0 then int iw else r3)
      in (w, h))"

text \<open>\<^verbatim>\<open>av_rescale(a, b, c)\<close> on non-negative arguments: \<open>a * b / c\<close> rounded to the
  nearest integer, halves up (\<^verbatim>\<open>AV_ROUND_NEAR_INF\<close>).\<close>

definition av_rescale :: "int \<Rightarrow> int \<Rightarrow> int \<Rightarrow> int" where
  "av_rescale a b c = (a * b + c div 2) div c"

text \<open>\<^verbatim>\<open>ff_scale_adjust_dimensions\<close>: a side \<open>-n\<close> (\<open>n > 1\<close>) becomes the other side
  rescaled by the input's aspect ratio, rounded to a multiple of \<open>n\<close>.\<close>

definition scale_adjust :: "nat \<Rightarrow> nat \<Rightarrow> int \<times> int \<Rightarrow> int \<times> int" where
  "scale_adjust iw ih wh =
     (let (w, h) = wh;
          fw = (if w < -1 then - w else 1);
          fh = (if h < -1 then - h else 1);
          (w, h) = (if w < 0 \<and> h < 0 then (int iw, int ih) else (w, h));
          w = (if w < 0 then av_rescale h (int iw) (int ih * fw) * fw else w);
          h = (if h < 0 then av_rescale w (int ih) (int iw * fh) * fh else h)
      in (w, h))"

text \<open>The size of the transcoded video for an input of \<open>iw \<times> ih\<close> pixels.\<close>

definition scale_dims :: "nat \<Rightarrow> nat \<Rightarrow> int \<times> int" where
  "scale_dims iw ih = scale_adjust iw ih (scale_eval scale_w_expr scale_h_expr iw ih)"

section \<open>Running ffmpeg\<close>

text \<open>The argument after a flag, as ffmpeg's option parser reads it.\<close>

fun arg_after :: "string \<Rightarrow> string list \<Rightarrow> string option" where
  "arg_after k (x # y # rest) = (if x = k then Some y else arg_after k (y # rest))"
| "arg_after k _ = None"

text \<open>
  One run of the ffmpeg process: it reads the file after \<^verbatim>\<open>-i\<close> and writes its last
  argument. Without \<^verbatim>\<open>-y\<close> an existing output file is not overwritten: with no terminal
  to answer its prompt, ffmpeg exits with status 1.
\<close>

definition run_ffmpeg ::
  "('m, 'r, 'f) env \<Rightarrow> string list \<Rightarrow> os_state \<Rightarrow> (pyexc + (int \<times> string)) \<times> os_state" where
  "run_ffmpeg env args s =
     (let inp = (case arg_after ''-i'' args of None \<Rightarrow> None | Some p \<Rightarrow> files s p);
          outp = last args
      in (case ffmpeg_tool env args inp of
            Inl e \<Rightarrow> (Inl e, s)
          | Inr (rc, err, out) \<Rightarrow>
              (if files s outp \<noteq> None \<and> ''-y'' \<notin> set args
               then (Inr (1, ''File '' @ [QUOTE] @ outp @ [QUOTE] @ '' already exists. Exiting.''), s)
               else (Inr (rc, err), (case out of None \<Rightarrow> s | Some b \<Rightarrow> write_file outp b s)))))"

text \<open>\<^verbatim>\<open>subprocess.run(cmd, check=True, capture_output=True, text=True)\<close> (line 89):
  a non-zero status raises \<^verbatim>\<open>CalledProcessError\<close> with the captured stderr.\<close>

definition subprocess_run_check :: "('m, 'r, 'f) env \<Rightarrow> string list \<Rightarrow> (pyexc, unit, 'm sess) py" where
  "subprocess_run_check env cmd =
     on_os (\<lambda>ost. case run_ffmpeg env cmd ost of
                  (Inl e, ost') \<Rightarrow> (Inl e, ost')
                | (Inr (rc, err), ost') \<Rightarrow>
                    (if rc \<noteq> 0 then Inl (CalledProcessError rc cmd '''' err) else Inr (), ost'))"

section \<open>The size of the transcoded video\<close>

lemma scale_eval_landscape:
  "0 < ih \<Longrightarrow> ih < iw \<Longrightarrow> scale_eval scale_w_expr scale_h_expr iw ih = (1280, -2)"
  by (simp add: scale_eval_def scale_w_expr_def scale_h_expr_def scale_vars_def c_int_def Let_def)

lemma scale_eval_portrait:
  "0 < ih \<Longrightarrow> iw \<le> ih \<Longrightarrow> scale_eval scale_w_expr scale_h_expr iw ih = (-2, 1280)"
  by (simp add: scale_eval_def scale_w_expr_def scale_h_expr_def scale_vars_def c_int_def Let_def)

lemma scale_dims_landscape:
  "0 < ih \<Longrightarrow> ih < iw \<Longrightarrow>
     scale_dims iw ih = (1280, (1280 * int ih + int iw) div (2 * int iw) * 2)"
  by (simp add: scale_dims_def scale_eval_landscape scale_adjust_def av_rescale_def mult.commute)

lemma scale_dims_portrait:
  "0 < ih \<Longrightarrow> iw \<le> ih \<Longrightarrow>
     scale_dims iw ih = ((1280 * int iw + int ih) div (2 * int ih) * 2, 1280)"
  by (simp add: scale_dims_def scale_eval_portrait scale_adjust_def av_rescale_def mult.commute)

text \<open>Rounding \<open>n / c\<close> to the nearest even number is off by at most one.\<close>

lemma round_even_bound:
  fixes n c :: int
  assumes "0 < c"
  shows "\<bar>(n + c) div (2 * c) * 2 * c - n\<bar> \<le> c"
proof -
  define q where "q = (n + c) div (2 * c)"
  define r where "r = (n + c) mod (2 * c)"
  have "n + c = 2 * c * q + r" by (simp add: q_def r_def)
  moreover have "0 \<le> r" "r < 2 * c" using assms by (simp_all add: r_def)
  ultimately have "q * 2 * c - n = c - r" by (simp add: algebra_simps)
  with \<open>0 \<le> r\<close> \<open>r < 2 * c\<close> have "\<bar>q * 2 * c - n\<bar> \<le> c" by arith
  then show ?thesis by (simp add: q_def)
qed

text \<open>
  C6. For every input size, the transcoded video has an even width and an even height, and
  its long side is 1280: the width for a landscape input, the height otherwise (a square
  input takes the portrait branch, since \<^verbatim>\<open>gt(a,1)\<close> is false for \<open>a = 1\<close>).
\<close>

theorem scale_dims_even_long_side:
  assumes "0 < iw" and "0 < ih"
  shows "even (fst (scale_dims iw ih)) \<and> even (snd (scale_dims iw ih)) \<and>
         (if ih < iw then fst (scale_dims iw ih) = 1280 else snd (scale_dims iw ih) = 1280)"
proof (cases "ih < iw")
  case True
  with assms show ?thesis by (simp add: scale_dims_landscape)
next
  case False
  with assms show ?thesis by (simp add: scale_dims_portrait)
qed

text \<open>
  C7. The short side is the proportional value rounded to an even number: it differs from
  \<open>1280 \<cdot> short / long\<close> by at most one pixel.
\<close>

theorem scale_dims_proportional:
  assumes "0 < iw" and "0 < ih"
  shows "(ih < iw \<longrightarrow> \<bar>snd (scale_dims iw ih) * int iw - 1280 * int ih\<bar> \<le> int iw) \<and>
         (iw \<le> ih \<longrightarrow> \<bar>fst (scale_dims iw ih) * int ih - 1280 * int iw\<bar> \<le> int ih)"
  using assms round_even_bound [of "int iw" "1280 * int ih"] round_even_bound [of "int ih" "1280 * int iw"]
  by (simp add: scale_dims_landscape scale_dims_portrait add.commute)

text \<open>
  C8. The rounding reaches zero: for a landscape input wider than 1280 times its height the
  height of the transcoded video is 0, an even number but not a video size.
\<close>

theorem scale_dims_degenerate:
  assumes "0 < ih" and "1280 * ih < iw"
  shows "snd (scale_dims iw ih) = 0"
proof -
  from assms have "ih < iw" by simp
  moreover from assms have "1280 * int ih + int iw < 2 * int iw" by linarith
  ultimately show ?thesis using assms by (simp add: scale_dims_landscape div_pos_pos_trivial)
qed

section \<open>Running the command\<close>

lemma arg_after_ffmpeg_command [simp]: "arg_after ''-i'' (ffmpeg_command i d) = Some i"
  by (simp add: ffmpeg_command_def)

lemma last_ffmpeg_command [simp]: "last (ffmpeg_command i d) = d"
  by (simp add: ffmpeg_command_def)

lemma overwrite_flag_ffmpeg_command [simp]: "''-y'' \<in> set (ffmpeg_command i d)"
  by (simp add: ffmpeg_command_def)

lemma run_ffmpeg_command:
  "ffmpeg_tool env (ffmpeg_command i d) (files s i) = Inr (rc, err, out) \<Longrightarrow>
     run_ffmpeg env (ffmpeg_command i d) s =
       (Inr (rc, err), case out of None \<Rightarrow> s | Some b \<Rightarrow> write_file d b s)"
  by (simp add: run_ffmpeg_def)

lemma run_ffmpeg_command_launch_fail:
  "ffmpeg_tool env (ffmpeg_command i d) (files s i) = Inl e \<Longrightarrow>
     run_ffmpeg env (ffmpeg_command i d) s = (Inl e, s)"
  by (simp add: run_ffmpeg_def)

text \<open>ffmpeg writes nothing but the file named last on its command line.\<close>

lemma run_ffmpeg_command_files:
  "run_ffmpeg env (ffmpeg_command i d) s = (r, s') \<Longrightarrow>
     files s' = files s \<or> (\<exists>b. files s' = (files s)(d \<mapsto> b))"
  by (auto simp: run_ffmpeg_def write_file_def split: sum.splits option.splits if_splits)

text \<open>
  C9. When ffmpeg exits with a non-zero status, the call of line 89 raises
  \<^verbatim>\<open>CalledProcessError\<close> carrying ffmpeg's stderr unchanged, and the only file it can
  have touched is the output file; this holds although the output file already exists
  (the temporary file created for it), because the command passes \<^verbatim>\<open>-y\<close>.
\<close>

theorem ffmpeg_failure_raises:
  assumes "ffmpeg_tool env (ffmpeg_command i d) (files (os s) i) = Inr (rc, err, out)"
    and "rc \<noteq> 0"
  shows "subprocess_run_check env (ffmpeg_command i d) s =
           (Inl (CalledProcessError rc (ffmpeg_command i d) '''' err),
            s\<lparr>os := (case out of None \<Rightarrow> os s | Some b \<Rightarrow> write_file d b (os s))\<rparr>)"
  using assms by (simp add: subprocess_run_check_def on_os_def run_ffmpeg_command)

end
