(* ===== verification/Detector.thy ===== *)
theory Detector
  imports Runtime
begin

unbundle bit_operations_syntax

text \<open>
  The detection runner, \<^verbatim>\<open>process_video\<close> of \<^verbatim>\<open>src/deploy.py\<close> (lines 13--43). It
  opens the transcoded file with OpenCV's \<^verbatim>\<open>VideoCapture\<close>, opens a
  \<^verbatim>\<open>VideoWriter\<close> of the same size and rate with the codec tag \<^verbatim>\<open>mp4v\<close>, and
  then reads frame after frame, runs the model on each (\<^verbatim>\<open>imgsz=640\<close>,
  \<^verbatim>\<open>conf=0.5\<close>), and writes the annotated copy of the first result. The capture is a
  record holding the frames not read yet; the writer is a record holding the frames
  written so far. An opened writer's file holds the unfinished stream of those frames
  (\<open>wr_stream\<close>: header and frames, written from line 27 on); \<^verbatim>\<open>release()\<close> replaces
  it with the finished encoding. The writer follows
  OpenCV's FFmpeg backend: it truncates an odd size to the even size below
  (\<^verbatim>\<open>width &= -2\<close>), refuses to open with a side of 0, and silently drops a frame
  whose size does not truncate to its own.

  The loop is a \<^theory_text>\<open>function\<close> whose termination measure is the number of frames
  left to read. An abstract specification, \<open>render_frames\<close>, says what the loop is meant
  to compute: the annotated frames in order, or the first error; the refinement lemma
  relates the loop to it.
\<close>

section \<open>Constants and the codec tag\<close>

definition IMG_SIZE :: nat where
  "IMG_SIZE = 640"

definition CONF_THRESHOLD :: rat where
  "CONF_THRESHOLD = 1 / 2"

text \<open>\<^verbatim>\<open>cv2.VideoWriter_fourcc(c1, c2, c3, c4)\<close>, OpenCV's \<^verbatim>\<open>CV_FOURCC\<close>:
  the four character codes packed little-endian into a 32-bit integer.\<close>

definition VideoWriter_fourcc :: "char \<Rightarrow> char \<Rightarrow> char \<Rightarrow> char \<Rightarrow> 32 word" where
  "VideoWriter_fourcc c1 c2 c3 c4 =
     (of_char c1 AND 255) + push_bit 8 (of_char c2 AND 255) +
     push_bit 16 (of_char c3 AND 255) + push_bit 24 (of_char c4 AND 255)"

section \<open>Capture\<close>

record 'f capture =
  cap_opened :: bool
  cap_width :: nat
  cap_height :: nat
  cap_fps :: rat
  cap_rest :: "'f list"

definition closed_capture :: "'f capture" where
  "closed_capture = \<lparr>cap_opened = False, cap_width = 0, cap_height = 0, cap_fps = 0, cap_rest = []\<rparr>"

text \<open>\<^verbatim>\<open>cv2.VideoCapture(path)\<close>: opened when the file exists and decodes.\<close>

definition video_capture :: "('m, 'r, 'f) env \<Rightarrow> path \<Rightarrow> os_state \<Rightarrow> 'f capture" where
  "video_capture env p s =
     (case files s p of
        None \<Rightarrow> closed_capture
      | Some b \<Rightarrow>
          (case decode env b of
             None \<Rightarrow> closed_capture
           | Some v \<Rightarrow> \<lparr>cap_opened = True, cap_width = vid_width v, cap_height = vid_height v,
                        cap_fps = vid_fps v, cap_rest = vid_frames v\<rparr>))"

text \<open>\<^verbatim>\<open>ret, frame = cap.read()\<close>: \<open>None\<close> stands for \<^verbatim>\<open>ret == False\<close>.\<close>

definition cap_read :: "'f capture \<Rightarrow> 'f option \<times> 'f capture" where
  "cap_read c =
     (if cap_opened c then
        (case cap_rest c of [] \<Rightarrow> (None, c) | f # fs \<Rightarrow> (Some f, c\<lparr>cap_rest := fs\<rparr>))
      else (None, c))"

section \<open>Writer\<close>

record 'f writer =
  wr_path :: path
  wr_fourcc :: "32 word"
  wr_fps :: rat
  wr_width :: int
  wr_height :: int
  wr_opened :: bool
  wr_frames :: "'f list"

text \<open>\<^verbatim>\<open>cv2.VideoWriter(path, fourcc, fps, (w, h))\<close>.\<close>

definition video_writer :: "('m, 'r, 'f) env \<Rightarrow> path \<Rightarrow> 32 word \<Rightarrow> rat \<Rightarrow> int \<times> int \<Rightarrow> 'f writer" where
  "video_writer env p fourcc fps dims =
     (let w = fst dims AND -2; h = snd dims AND -2
      in \<lparr>wr_path = p, wr_fourcc = fourcc, wr_fps = fps, wr_width = w, wr_height = h,
          wr_opened = (0 < w \<and> 0 < h \<and> writer_ok env fourcc fps (w, h)), wr_frames = []\<rparr>)"

definition frame_fits :: "('m, 'r, 'f) env \<Rightarrow> 'f writer \<Rightarrow> 'f \<Rightarrow> bool" where
  "frame_fits env wr f \<longleftrightarrow>
     (fst (frame_dims env f) AND -2) = wr_width wr \<and> (snd (frame_dims env f) AND -2) = wr_height wr"

text \<open>\<^verbatim>\<open>out.write(frame)\<close>: a frame of the wrong size is dropped without an error.\<close>

definition writer_write :: "('m, 'r, 'f) env \<Rightarrow> 'f writer \<Rightarrow> 'f \<Rightarrow> 'f writer" where
  "writer_write env wr f =
     (if wr_opened wr \<and> frame_fits env wr f then wr\<lparr>wr_frames := wr_frames wr @ [f]\<rparr> else wr)"

text \<open>\<^verbatim>\<open>out.release()\<close>: the writer finalises its file, which then holds the
  finished encoding of the frames written.\<close>

definition writer_release :: "('m, 'r, 'f) env \<Rightarrow> 'f writer \<Rightarrow> os_state \<Rightarrow> os_state" where
  "writer_release env wr s =
     (if wr_opened wr
      then write_file (wr_path wr)
             (encode env (wr_fourcc wr) (wr_fps wr) (wr_width wr, wr_height wr) (wr_frames wr)) s
      else s)"

text \<open>The bytes an opened writer has put in its file before it is released: the header
  written when it opens (line 27) and the frames written so far (line 40).\<close>

definition wr_stream :: "('m, 'r, 'f) env \<Rightarrow> 'f writer \<Rightarrow> bytes" where
  "wr_stream env wr = stream env (wr_fourcc wr) (wr_fps wr) (wr_width wr, wr_height wr) (wr_frames wr)"

section \<open>The frame loop\<close>

text \<open>Lines 33--40: \<^verbatim>\<open>results[0]\<close> raises \<^verbatim>\<open>IndexError\<close> on an empty result list;
  an exception of the model propagates out of the loop.\<close>

function detect_loop ::
  "('m, 'r, 'f) env \<Rightarrow> 'm \<Rightarrow> 'f capture \<Rightarrow> 'f writer \<Rightarrow> (pyexc + unit) \<times> 'f capture \<times> 'f writer" where
  "detect_loop env model cap out =
     (case cap_read cap of
        (None, cap') \<Rightarrow> (Inr (), cap', out)
      | (Some frame, cap') \<Rightarrow>
          (case predict env model frame IMG_SIZE CONF_THRESHOLD of
             Inl e \<Rightarrow> (Inl e, cap', out)
           | Inr [] \<Rightarrow> (Inl (IndexError ''list index out of range''), cap', out)
           | Inr (r # _) \<Rightarrow> detect_loop env model cap' (writer_write env out (plot env r))))"
  by pat_completeness auto
termination
  by (relation "measure (\<lambda>(env, model, cap, out). length (cap_rest cap))")
     (auto simp: cap_read_def split: if_splits list.splits)

declare detect_loop.simps [simp del]

text \<open>\<^verbatim>\<open>process_video(input_path, output_path, model)\<close>. A capture or writer that
  does not open is reported with \<^verbatim>\<open>st.error\<close> and the function returns normally;
  the capture's release has no effect the program observes. An opened writer creates its
  file and writes the header (line 27), then each accepted frame (line 40); as nothing
  reads the file during the loop, the frames are written to the store once, when the loop
  ends. An exception leaves that unfinished stream in the file; \<^verbatim>\<open>out.release()\<close>
  (line 43) is reached only when the loop ends normally.\<close>

definition process_video ::
  "('m, 'r, 'f) env \<Rightarrow> path \<Rightarrow> path \<Rightarrow> 'm \<Rightarrow> (pyexc, unit, 'm sess) py" where
  "process_video env input_path output_path model s =
     (let cap = video_capture env input_path (os s)
      in if \<not> cap_opened cap
         then emit (Error (''Error: Could not open pre-processed video file at '' @ input_path)) s
         else
           (let width = int (cap_width cap);
                height = int (cap_height cap);
                fps = cap_fps cap;
                fourcc = VideoWriter_fourcc (CHR ''m'') (CHR ''p'') (CHR ''4'') (CHR ''v'');
                out = video_writer env output_path fourcc fps (width, height)
            in if \<not> wr_opened out
               then emit (Error ''Error: Could not open video writer.'') s
               else
                 (let s1 = s\<lparr>os := write_file output_path (wr_stream env out) (os s)\<rparr>
                  in case detect_loop env model cap out of
                       (Inl e, _, out') \<Rightarrow> (Inl e, s1\<lparr>os := write_file output_path (wr_stream env out') (os s1)\<rparr>)
                     | (Inr _, _, out') \<Rightarrow> (Inr (), s1\<lparr>os := writer_release env out' (os s1)\<rparr>))))"

section \<open>Abstract specification of the loop\<close>

text \<open>What the loop computes: each frame rendered from the model's first result, in
  order, or the first exception.\<close>

fun render_frames :: "('m, 'r, 'f) env \<Rightarrow> 'm \<Rightarrow> 'f list \<Rightarrow> pyexc + 'f list" where
  "render_frames env model [] = Inr []"
| "render_frames env model (f # fs) =
     (case predict env model f IMG_SIZE CONF_THRESHOLD of
        Inl e \<Rightarrow> Inl e
      | Inr [] \<Rightarrow> Inl (IndexError ''list index out of range'')
      | Inr (r # _) \<Rightarrow>
          (case render_frames env model fs of Inl e \<Rightarrow> Inl e | Inr gs \<Rightarrow> Inr (plot env r # gs)))"

lemma writer_write_fields [simp]:
  "wr_path (writer_write env wr f) = wr_path wr"
  "wr_fourcc (writer_write env wr f) = wr_fourcc wr"
  "wr_fps (writer_write env wr f) = wr_fps wr"
  "wr_width (writer_write env wr f) = wr_width wr"
  "wr_height (writer_write env wr f) = wr_height wr"
  "wr_opened (writer_write env wr f) = wr_opened wr"
  by (simp_all add: writer_write_def)

lemma frame_fits_writer_write [simp]: "frame_fits env (writer_write env wr g) = frame_fits env wr"
  by (rule ext) (simp add: frame_fits_def)

lemma wr_frames_writer_write [simp]:
  "wr_frames (writer_write env wr g) =
     wr_frames wr @ (if wr_opened wr \<and> frame_fits env wr g then [g] else [])"
  by (simp add: writer_write_def)

lemma writer_write_frames_update [simp]:
  "(writer_write env wr g)\<lparr>wr_frames := x\<rparr> = wr\<lparr>wr_frames := x\<rparr>"
  by (simp add: writer_write_def)

lemma render_frames_length: "render_frames env m fs = Inr gs \<Longrightarrow> length gs = length fs"
  by (induction fs arbitrary: gs) (auto split: sum.splits list.splits)

lemma detect_loop_render:
  assumes "cap_opened cap" and "render_frames env m (cap_rest cap) = Inr gs"
  shows "detect_loop env m cap out =
           (Inr (), cap\<lparr>cap_rest := []\<rparr>,
            out\<lparr>wr_frames := wr_frames out @ filter (\<lambda>g. wr_opened out \<and> frame_fits env out g) gs\<rparr>)"
  using assms
proof (induction "cap_rest cap" arbitrary: cap out gs)
  case Nil
  then show ?case by (simp add: detect_loop.simps cap_read_def)
next
  case (Cons f fs)
  have cr: "cap_rest cap = f # fs" using Cons.hyps(2) by simp
  from Cons.prems cr obtain r rs gs' where
    pr: "predict env m f IMG_SIZE CONF_THRESHOLD = Inr (r # rs)" and
    rf: "render_frames env m fs = Inr gs'" and gs: "gs = plot env r # gs'"
    by (auto split: sum.splits list.splits)
  let ?cap' = "cap\<lparr>cap_rest := fs\<rparr>"
  let ?out' = "writer_write env out (plot env r)"
  have rd: "cap_read cap = (Some f, ?cap')"
    using Cons.prems(1) cr by (simp add: cap_read_def)
  have "detect_loop env m ?cap' ?out' =
          (Inr (), ?cap'\<lparr>cap_rest := []\<rparr>,
           ?out'\<lparr>wr_frames := wr_frames ?out' @ filter (\<lambda>g. wr_opened ?out' \<and> frame_fits env ?out' g) gs'\<rparr>)"
    using Cons.prems(1) rf by (intro Cons.hyps(1)) simp_all
  then show ?case
    by (simp add: detect_loop.simps [of env m cap out] rd pr gs)
qed

lemma detect_loop_error:
  assumes "cap_opened cap" and "render_frames env m (cap_rest cap) = Inl e"
  shows "\<exists>c' fs. detect_loop env m cap out = (Inl e, c', out\<lparr>wr_frames := wr_frames out @ fs\<rparr>) \<and>
                 length fs < length (cap_rest cap)"
  using assms
proof (induction "cap_rest cap" arbitrary: cap out)
  case Nil
  then show ?case by simp
next
  case (Cons f fs)
  have cr: "cap_rest cap = f # fs" using Cons.hyps(2) by simp
  have rd: "cap_read cap = (Some f, cap\<lparr>cap_rest := fs\<rparr>)"
    using Cons.prems(1) cr by (simp add: cap_read_def)
  show ?case
  proof (cases "predict env m f IMG_SIZE CONF_THRESHOLD")
    case (Inl e')
    with Cons.prems cr show ?thesis
      by (simp add: detect_loop.simps [of env m cap out] rd) (rule exI [of _ "[]"], simp)
  next
    case (Inr rs)
    show ?thesis
    proof (cases rs)
      case Nil
      with Inr Cons.prems cr show ?thesis
        by (simp add: detect_loop.simps [of env m cap out] rd) (rule exI [of _ "[]"], simp)
    next
      case (Cons r rs')
      with Inr Cons.prems(2) cr have "render_frames env m fs = Inl e"
        by (simp split: sum.splits)
      then have "\<exists>c' gs. detect_loop env m (cap\<lparr>cap_rest := fs\<rparr>) (writer_write env out (plot env r)) =
                 (Inl e, c', (writer_write env out (plot env r))\<lparr>wr_frames :=
                    wr_frames (writer_write env out (plot env r)) @ gs\<rparr>) \<and> length gs < length fs"
        using Cons.prems(1) Cons.hyps(1) [of "cap\<lparr>cap_rest := fs\<rparr>" "writer_write env out (plot env r)"]
        by simp
      then obtain c' gs where
        loop: "detect_loop env m (cap\<lparr>cap_rest := fs\<rparr>) (writer_write env out (plot env r)) =
                 (Inl e, c', (writer_write env out (plot env r))\<lparr>wr_frames :=
                    wr_frames (writer_write env out (plot env r)) @ gs\<rparr>)"
        and len: "length gs < length fs"
        by blast
      have "detect_loop env m cap out = (Inl e, c', out\<lparr>wr_frames :=
              wr_frames out @ ((if wr_opened out \<and> frame_fits env out (plot env r) then [plot env r] else []) @ gs)\<rparr>)"
        using Inr Cons loop by (simp add: detect_loop.simps [of env m cap out] rd)
      with len cr show ?thesis by fastforce
    qed
  qed
qed

lemma int_and_minus_two: "(w::int) AND -2 = w - w mod 2"
proof -
  have "(w AND NOT 1) + (w AND 1) = (w AND NOT 1) OR (w AND 1)"
    by (rule disjunctive_add) (auto simp: bit_simps)
  also have "\<dots> = w" by (rule bit_eqI) (auto simp: bit_simps)
  finally have "w AND NOT 1 = w - w mod 2" by (simp add: and_one_eq algebra_simps)
  then show ?thesis by simp
qed

lemma video_capture_opened:
  "files s p = Some b \<Longrightarrow> decode env b = Some v \<Longrightarrow>
     video_capture env p s = \<lparr>cap_opened = True, cap_width = vid_width v, cap_height = vid_height v,
                              cap_fps = vid_fps v, cap_rest = vid_frames v\<rparr>"
  by (simp add: video_capture_def)

lemma frame_fits_video_writer:
  "frame_dims env g = (w, h) \<Longrightarrow> frame_fits env (video_writer env p t fps (w, h)) g"
  by (simp add: frame_fits_def video_writer_def Let_def)

section \<open>Properties of the detection runner\<close>

text \<open>The run of \<^verbatim>\<open>process_video\<close> when everything opens and the model renders every
  frame: the output file holds the encoding of the rendered frames the writer accepts.\<close>

lemma process_video_writes:
  assumes "files (os s) i = Some b" and "decode env b = Some v"
    and "wr_opened (video_writer env outp (VideoWriter_fourcc (CHR ''m'') (CHR ''p'') (CHR ''4'') (CHR ''v''))
           (vid_fps v) (int (vid_width v), int (vid_height v)))"
    and "render_frames env m (vid_frames v) = Inr gs"
  shows "process_video env i outp m s =
           (Inr (), s\<lparr>os := write_file outp
              (encode env (VideoWriter_fourcc (CHR ''m'') (CHR ''p'') (CHR ''4'') (CHR ''v'')) (vid_fps v)
                 (int (vid_width v) AND -2, int (vid_height v) AND -2)
                 (filter (\<lambda>g. frame_fits env (video_writer env outp
                    (VideoWriter_fourcc (CHR ''m'') (CHR ''p'') (CHR ''4'') (CHR ''v''))
                    (vid_fps v) (int (vid_width v), int (vid_height v))) g) gs)) (os s)\<rparr>)"
proof -
  let ?t = "VideoWriter_fourcc (CHR ''m'') (CHR ''p'') (CHR ''4'') (CHR ''v'')"
  let ?cap = "\<lparr>cap_opened = True, cap_width = vid_width v, cap_height = vid_height v,
               cap_fps = vid_fps v, cap_rest = vid_frames v\<rparr>"
  let ?out = "video_writer env outp ?t (vid_fps v) (int (vid_width v), int (vid_height v))"
  have loop: "detect_loop env m ?cap ?out =
                (Inr (), ?cap\<lparr>cap_rest := []\<rparr>,
                 ?out\<lparr>wr_frames := filter (\<lambda>g. frame_fits env ?out g) gs\<rparr>)"
    using detect_loop_render [of ?cap env m gs ?out] assms(3,4) by (simp add: video_writer_def Let_def)
  show ?thesis
    using assms(1-4) loop
    by (simp add: process_video_def video_capture_opened writer_release_def Let_def)
       (simp add: video_writer_def Let_def)
qed

lemma process_video_success:
  assumes "files (os s) i = Some b" and "decode env b = Some v"
    and "wr_opened (video_writer env outp (VideoWriter_fourcc (CHR ''m'') (CHR ''p'') (CHR ''4'') (CHR ''v''))
           (vid_fps v) (int (vid_width v), int (vid_height v)))"
    and "render_frames env m (vid_frames v) = Inr gs"
    and "\<forall>g \<in> set gs. frame_dims env g = (int (vid_width v), int (vid_height v))"
  shows "process_video env i outp m s =
           (Inr (), s\<lparr>os := write_file outp
              (encode env (VideoWriter_fourcc (CHR ''m'') (CHR ''p'') (CHR ''4'') (CHR ''v'')) (vid_fps v)
                 (int (vid_width v) AND -2, int (vid_height v) AND -2) gs) (os s)\<rparr>)"
  using process_video_writes [OF assms(1-4)] assms(5)
  by (simp add: filter_id_conv frame_fits_video_writer)

text \<open>
  C2. The frame-count property. When the transcoded file opens, the writer opens, the
  model renders every frame, and each rendered frame keeps the size of the video, then
  \<^verbatim>\<open>process_video\<close> completes and leaves in the output file exactly the encoding of
  the rendered frames, in their original order, one per input frame.
\<close>

theorem process_video_renders_all_frames:
  assumes "files (os s) i = Some b" and "decode env b = Some v"
    and "wr_opened (video_writer env outp (VideoWriter_fourcc (CHR ''m'') (CHR ''p'') (CHR ''4'') (CHR ''v''))
           (vid_fps v) (int (vid_width v), int (vid_height v)))"
    and "render_frames env m (vid_frames v) = Inr gs"
    and "\<forall>g \<in> set gs. frame_dims env g = (int (vid_width v), int (vid_height v))"
  shows "process_video env i outp m s =
           (Inr (), s\<lparr>os := write_file outp
              (encode env (VideoWriter_fourcc (CHR ''m'') (CHR ''p'') (CHR ''4'') (CHR ''v'')) (vid_fps v)
                 (int (vid_width v) AND -2, int (vid_height v) AND -2) gs) (os s)\<rparr>) \<and>
         length gs = length (vid_frames v)"
  using process_video_success [OF assms] render_frames_length [OF assms(4)] by simp

text \<open>
  C17. A rendered frame whose size differs from the video's is dropped without an error:
  \<^verbatim>\<open>out.write\<close> ignores it and the program never checks, so the output file holds fewer
  frames than the input had, and not that one.
\<close>

theorem process_video_drops_resized_frame:
  assumes "files (os s) i = Some b" and "decode env b = Some v"
    and "wr_opened (video_writer env outp (VideoWriter_fourcc (CHR ''m'') (CHR ''p'') (CHR ''4'') (CHR ''v''))
           (vid_fps v) (int (vid_width v), int (vid_height v)))"
    and "render_frames env m (vid_frames v) = Inr gs"
    and "g \<in> set gs" and "fst (frame_dims env g) AND -2 \<noteq> int (vid_width v) AND -2"
  shows "\<exists>fs. process_video env i outp m s =
               (Inr (), s\<lparr>os := write_file outp
                  (encode env (VideoWriter_fourcc (CHR ''m'') (CHR ''p'') (CHR ''4'') (CHR ''v'')) (vid_fps v)
                     (int (vid_width v) AND -2, int (vid_height v) AND -2) fs) (os s)\<rparr>) \<and>
             g \<notin> set fs \<and> length fs < length (vid_frames v)"
proof -
  let ?P = "\<lambda>g. frame_fits env (video_writer env outp
              (VideoWriter_fourcc (CHR ''m'') (CHR ''p'') (CHR ''4'') (CHR ''v''))
              (vid_fps v) (int (vid_width v), int (vid_height v))) g"
  have "\<not> ?P g" using assms(6) by (simp add: frame_fits_def video_writer_def Let_def)
  then have "g \<notin> set (filter ?P gs)" and "length (filter ?P gs) < length gs"
    using assms(5) by (auto intro: length_filter_less)
  with process_video_writes [OF assms(1-4)] render_frames_length [OF assms(4)] show ?thesis by auto
qed

text \<open>
  C10. A pre-processed file that cannot be opened is not an exception: \<^verbatim>\<open>process_video\<close>
  shows one error message and returns normally, with the files untouched.
\<close>

theorem process_video_capture_failure:
  assumes "\<not> cap_opened (video_capture env i (os s))"
  shows "process_video env i outp m s =
           (Inr (), s\<lparr>ui := ui s @ [Error (''Error: Could not open pre-processed video file at '' @ i)]\<rparr>)"
  using assms by (simp add: process_video_def)

text \<open>
  C11. An exception of the model on any frame aborts the video: it propagates out of
  \<^verbatim>\<open>process_video\<close> with the page unchanged, the writer is never released, and the
  output file is left holding the unfinished stream of the frames written before the
  failing one, fewer than the video has.
\<close>

theorem process_video_inference_error:
  assumes "files (os s) i = Some b" and "decode env b = Some v"
    and "wr_opened (video_writer env outp (VideoWriter_fourcc (CHR ''m'') (CHR ''p'') (CHR ''4'') (CHR ''v''))
           (vid_fps v) (int (vid_width v), int (vid_height v)))"
    and "render_frames env m (vid_frames v) = Inl e"
  shows "\<exists>fs. process_video env i outp m s =
               (Inl e, s\<lparr>os := write_file outp
                  (stream env (VideoWriter_fourcc (CHR ''m'') (CHR ''p'') (CHR ''4'') (CHR ''v'')) (vid_fps v)
                     (int (vid_width v) AND -2, int (vid_height v) AND -2) fs) (os s)\<rparr>) \<and>
             length fs < length (vid_frames v)"
proof -
  let ?t = "VideoWriter_fourcc (CHR ''m'') (CHR ''p'') (CHR ''4'') (CHR ''v'')"
  let ?cap = "\<lparr>cap_opened = True, cap_width = vid_width v, cap_height = vid_height v,
               cap_fps = vid_fps v, cap_rest = vid_frames v\<rparr>"
  let ?out = "video_writer env outp ?t (vid_fps v) (int (vid_width v), int (vid_height v))"
  obtain c' fs where loop: "detect_loop env m ?cap ?out = (Inl e, c', ?out\<lparr>wr_frames := wr_frames ?out @ fs\<rparr>)"
    and len: "length fs < length (vid_frames v)"
    using detect_loop_error [of ?cap env m e ?out] assms(4) by auto
  have "process_video env i outp m s =
          (Inl e, s\<lparr>os := write_file outp (stream env ?t (vid_fps v)
             (int (vid_width v) AND -2, int (vid_height v) AND -2) fs) (os s)\<rparr>)"
    using assms(1-3) loop
    by (simp add: process_video_def video_capture_opened wr_stream_def Let_def)
       (simp add: video_writer_def Let_def)
  with len show ?thesis by blast
qed

end
