(* ===== verification/Session.thy ===== *)
theory Session
  imports ModelLoader Transcoder Detector
begin

text \<open>
  The session orchestrator, \<^verbatim>\<open>main\<close> of \<^verbatim>\<open>src/deploy.py\<close> (lines 45--125), one run of
  the Streamlit script. It checks for the model file, loads the model through the cache,
  shows the uploader and, when a video has been uploaded, saves it to a temporary file,
  transcodes it into a second one, runs the detector into a third one, shows the result,
  and in its \<^verbatim>\<open>finally\<close> block removes every temporary file that still exists. Each
  statement of the source is one combinator of the statement monad of the prelude; the
  three path variables of the \<^verbatim>\<open>try\<close> block are fields of the state, so that the
  \<^verbatim>\<open>finally\<close> block reads them as the Python code does.
\<close>

definition model_path :: path where
  "model_path = ''best.pt''"

text \<open>\<^verbatim>\<open>tfile = tempfile.NamedTemporaryFile(delete=False, suffix=suf)\<close> followed by
  the assignment of \<^verbatim>\<open>tfile.name\<close> to one of the path variables (lines 69--70,
  75--76, 92--93).\<close>

definition create_temp :: "string \<Rightarrow> (path \<Rightarrow> 'm sess \<Rightarrow> 'm sess) \<Rightarrow> (pyexc, path, 'm sess) py" where
  "create_temp suf assign =
     bindP (on_os (named_temporary_file suf)) (\<lambda>p. seqP (modifyP (assign p)) (returnP p))"

text \<open>Lines 98--109: show the result if the output file exists and is not empty.\<close>

definition present :: "path \<Rightarrow> (pyexc, unit, 'm sess) py" where
  "present output_path =
     ifP (\<lambda>s. path_exists (os s) output_path \<and>
              (case getsize (os s) output_path of Inr n \<Rightarrow> 0 < n | Inl _ \<Rightarrow> False))
       (bindP (\<lambda>s. (read_file (os s) output_path, s))
          (\<lambda>video_bytes.
             seqP (emit (Video video_bytes))
               (emit (DownloadButton ''Download Processed Video'' video_bytes
                        ''video_with_detections.mp4'' ''video/mp4''))))
       (emit (Error ''Processing failed to produce a video file.''))"

text \<open>The body of the \<^verbatim>\<open>try\<close> block, lines 69--109.\<close>

definition upload_body ::
  "('m, 'r, 'f) env \<Rightarrow> 'm \<Rightarrow> string \<Rightarrow> bytes \<Rightarrow> (pyexc, unit, 'm sess) py" where
  "upload_body env model name content =
     bindP (create_temp (snd (splitext name)) (\<lambda>p s. s\<lparr>input_video_path := Some p\<rparr>)) (\<lambda>inp.
     seqP (modifyP (\<lambda>s. s\<lparr>os := write_file inp content (os s)\<rparr>))
     (seqP (emit (Info ''Standardizing video with FFmpeg...''))
     (bindP (create_temp ''.mp4'' (\<lambda>p s. s\<lparr>downscaled_video_path := Some p\<rparr>)) (\<lambda>down.
     seqP (subprocess_run_check env (ffmpeg_command inp down))
     (seqP (emit (Info ''Processing the standardized video for object detection...''))
     (bindP (create_temp ''.mp4'' (\<lambda>p s. s\<lparr>output_video_path := Some p\<rparr>)) (\<lambda>outp.
     seqP (process_video env down outp model)
     (present outp))))))))"

text \<open>The two \<^verbatim>\<open>except\<close> clauses, lines 111--116: \<^verbatim>\<open>CalledProcessError\<close> first,
  then any \<^verbatim>\<open>Exception\<close>; anything else is re-raised.\<close>

definition main_handler :: "pyexc \<Rightarrow> (pyexc, unit, 'm sess) py" where
  "main_handler e =
     (case e of
        CalledProcessError rc cmd out err \<Rightarrow>
          seqP (emit (Error ''FFmpeg failed to process the video. This can happen with certain video formats.''))
               (emit (Error (''FFmpeg Error Details: '' @ err)))
      | _ \<Rightarrow> if is_Exception e then emit (Error (''An unexpected error occurred: '' @ exc_str e))
             else raiseP e)"

text \<open>One line of the \<^verbatim>\<open>finally\<close> block:
  \<^verbatim>\<open>if path and os.path.exists(path): os.remove(path)\<close>.\<close>

definition remove_tmp :: "('m sess \<Rightarrow> path option) \<Rightarrow> (pyexc, unit, 'm sess) py" where
  "remove_tmp var s =
     (case var s of
        None \<Rightarrow> (Inr (), s)
      | Some p \<Rightarrow> if p \<noteq> [] \<and> path_exists (os s) p then on_os (os_remove p) s else (Inr (), s))"

text \<open>The \<^verbatim>\<open>finally\<close> block, lines 118--125.\<close>

definition cleanup :: "(pyexc, unit, 'm sess) py" where
  "cleanup =
     seqP (remove_tmp input_video_path)
       (seqP (remove_tmp downscaled_video_path) (remove_tmp output_video_path))"

text \<open>Lines 64--125: nothing happens without an upload; otherwise the three path
  variables start as \<^verbatim>\<open>None\<close> and the \<^verbatim>\<open>try\<close> statement runs.\<close>

definition upload_flow ::
  "('m, 'r, 'f) env \<Rightarrow> 'm \<Rightarrow> (string \<times> bytes) option \<Rightarrow> (pyexc, unit, 'm sess) py" where
  "upload_flow env model uploaded =
     (case uploaded of
        None \<Rightarrow> returnP ()
      | Some (name, content) \<Rightarrow>
          seqP (modifyP (\<lambda>s. s\<lparr>input_video_path := None, downscaled_video_path := None,
                                output_video_path := None\<rparr>))
            (try_except_finally (upload_body env model name content) main_handler cleanup))"

text \<open>
  \<^verbatim>\<open>main()\<close>. The argument \<open>uploaded\<close> is the value \<^verbatim>\<open>st.file_uploader\<close> returns in this
  run: \<open>None\<close>, or the uploaded file's name and contents.
\<close>

definition main :: "('m, 'r, 'f) env \<Rightarrow> (string \<times> bytes) option \<Rightarrow> (pyexc, unit, 'm sess) py" where
  "main env uploaded =
     seqP (emit (Title ''YOLOv11 Object Detection''))
     (seqP (emit (Write ''This app uses a pre-configured model to detect objects in an uploaded video.''))
     (ifP (\<lambda>s. \<not> path_exists (os s) model_path)
        (seqP (emit (Error (''Error: The model file was not found at the path: '' @ model_path)))
              (emit (Info (''Please make sure the '' @ [QUOTE] @ ''best.pt'' @ [QUOTE] @
                           '' file is located in the correct directory.''))))
        (bindP
           (catchP
              (bindP (load_model env model_path)
                 (\<lambda>model. seqP (emit (Success ''Model loaded successfully!'')) (returnP (Some model))))
              (\<lambda>e. if is_Exception e
                   then seqP (emit (Error (''An error occurred while loading the model: '' @ exc_str e)))
                          (returnP None)
                   else raiseP e))
           (\<lambda>loaded.
              case loaded of
                None \<Rightarrow> returnP ()
              | Some model \<Rightarrow>
                  seqP (emit (FileUploader ''Upload a video to begin detection (MP4, MOV, AVI)''
                                [''mp4'', ''mov'', ''avi'']))
                       (upload_flow env model uploaded)))))"

section \<open>The temporary-file invariant\<close>

text \<open>
  The path variables of \<^verbatim>\<open>main\<close>'s \<^verbatim>\<open>try\<close> block and the set of paths they hold
  (non-empty ones: an empty path is false for the \<^verbatim>\<open>finally\<close> block). The invariant
  \<open>tmp_inv f0\<close> says that the files differ from \<open>f0\<close> at most at tracked paths and
  that no tracked path existed in \<open>f0\<close>; the \<^verbatim>\<open>finally\<close> block turns it into
  equality with \<open>f0\<close>.
\<close>

definition locs :: "'m sess \<Rightarrow> path option \<times> path option \<times> path option" where
  "locs s = (input_video_path s, downscaled_video_path s, output_video_path s)"

definition tracked :: "'m sess \<Rightarrow> path set" where
  "tracked s = {p. p \<noteq> [] \<and> (input_video_path s = Some p \<or> downscaled_video_path s = Some p \<or>
                                output_video_path s = Some p)}"

definition tmp_inv :: "(path \<rightharpoonup> bytes) \<Rightarrow> 'm sess \<Rightarrow> bool" where
  "tmp_inv f0 s \<longleftrightarrow> (\<forall>q. q \<notin> tracked s \<longrightarrow> files (os s) q = f0 q) \<and> (\<forall>q \<in> tracked s. f0 q = None)"

section \<open>Every statement of the upload keeps the invariant\<close>

lemma tracked_locs: "locs s' = locs s \<Longrightarrow> tracked s' = tracked s"
  by (simp add: locs_def tracked_def)

lemma tmp_inv_frame:
  assumes "tmp_inv f0 s" and "locs s' = locs s" and "p \<in> tracked s"
    and "files (os s') = files (os s) \<or> (\<exists>b. files (os s') = (files (os s))(p \<mapsto> b))"
  shows "tmp_inv f0 s'"
  using assms tracked_locs [OF assms(2)] unfolding tmp_inv_def by auto

text \<open>A statement that keeps the path variables and writes at most one tracked file
  keeps the invariant on both exits.\<close>

lemma hoare_tracked_write:
  fixes m :: "('e, 'a, 'm sess) py"
  assumes "\<And>s r s'. m s = (r, s') \<Longrightarrow> locs s' = locs s \<and>
             (files (os s') = files (os s) \<or> (\<exists>b. files (os s') = (files (os s))(p \<mapsto> b)))"
    and "\<And>s :: 'm sess. locs s = L \<Longrightarrow> p \<in> tracked s"
  shows "hoare (\<lambda>s. tmp_inv f0 s \<and> locs s = L) m (\<lambda>_ s. tmp_inv f0 s \<and> locs s = L) (\<lambda>_ s. tmp_inv f0 s)"
proof (rule hoareI)
  fix s r s' assume pre: "tmp_inv f0 s \<and> locs s = L" and run: "m s = (r, s')"
  from assms(1) [OF run] have lc: "locs s' = locs s" and
    fl: "files (os s') = files (os s) \<or> (\<exists>b. files (os s') = (files (os s))(p \<mapsto> b))" by simp_all
  from pre have "p \<in> tracked s" by (intro assms(2)) simp
  with pre lc fl have "tmp_inv f0 s'" using tmp_inv_frame [of f0 s s' p] by blast
  with assms(1) [OF run] pre show "case r of Inl e \<Rightarrow> tmp_inv f0 s' | Inr a \<Rightarrow> tmp_inv f0 s' \<and> locs s' = L"
    by (simp split: sum.splits)
qed

lemma hoare_create_temp:
  fixes assign :: "path \<Rightarrow> 'm sess \<Rightarrow> 'm sess"
  assumes "\<And>p s. locs s = L \<Longrightarrow> p \<noteq> [] \<Longrightarrow>
             tracked (assign p s) = insert p (tracked s) \<and> os (assign p s) = os s \<and> locs (assign p s) = L' p"
  shows "hoare (\<lambda>s. tmp_inv f0 s \<and> locs s = L) (create_temp suf assign)
           (\<lambda>p s. (tmp_inv f0 s \<and> locs s = L' p) \<and> p \<noteq> []) (\<lambda>_ s. tmp_inv f0 s)"
proof (rule hoareI)
  fix s r s'
  assume pre: "tmp_inv f0 s \<and> locs s = L" and run: "create_temp suf assign s = (r, s')"
  obtain r0 o' where nt: "named_temporary_file suf (os s) = (r0, o')" by fastforce
  show "case r of Inl e \<Rightarrow> tmp_inv f0 s' | Inr p \<Rightarrow> (tmp_inv f0 s' \<and> locs s' = L' p) \<and> p \<noteq> []"
  proof (cases r0)
    case (Inl e)
    with nt run have "s' = s\<lparr>os := o'\<rparr>" "r = Inl e"
      by (simp_all add: create_temp_def on_os_def bindP_def)
    moreover from Inl nt have "files o' = files (os s)" by (simp add: named_temporary_file_Inl)
    ultimately show ?thesis using pre by (simp add: tmp_inv_def tracked_def)
  next
    case (Inr p)
    with nt have fresh: "files (os s) p = None \<and> files o' = (files (os s))(p \<mapsto> [])"
      by (simp add: named_temporary_file_fresh)
    from Inr nt have ne: "p \<noteq> []" by (simp add: named_temporary_file_nonempty)
    from Inr nt run have s': "s' = assign p (s\<lparr>os := o'\<rparr>)" and r: "r = Inr p"
      by (simp_all add: create_temp_def on_os_def bindP_def seqP_def)
    have L: "locs (s\<lparr>os := o'\<rparr>) = L" using pre by (simp add: locs_def)
    from assms [OF L ne] have
      tr: "tracked s' = insert p (tracked (s\<lparr>os := o'\<rparr>))" and
      os': "os s' = o'" and lc: "locs s' = L' p" by (simp_all add: s')
    have tr0: "tracked (s\<lparr>os := o'\<rparr>) = tracked s" by (simp add: tracked_def)
    have "tmp_inv f0 s'"
      unfolding tmp_inv_def tr tr0 os'
    proof (intro conjI allI impI ballI)
      fix q assume "q \<notin> insert p (tracked s)"
      with pre fresh show "files o' q = f0 q" by (simp add: tmp_inv_def)
    next
      fix q assume q: "q \<in> insert p (tracked s)"
      show "f0 q = None"
      proof (cases "q \<in> tracked s")
        case True
        with pre show ?thesis by (simp add: tmp_inv_def)
      next
        case False
        with q pre fresh show ?thesis by (auto simp: tmp_inv_def)
      qed
    qed
    with lc r ne show ?thesis by simp
  qed
qed

lemma hoare_nonempty_pre: "(p \<noteq> [] \<Longrightarrow> hoare P m Q E) \<Longrightarrow> hoare (\<lambda>s. P s \<and> p \<noteq> []) m Q E"
  by (auto simp: hoare_def)

lemma emit_frame: "emit u s = (r, s') \<Longrightarrow> locs s' = locs s \<and> files (os s') = files (os s)"
  by (auto simp: locs_def)

lemma write_frame:
  "modifyP (\<lambda>s. s\<lparr>os := write_file p c (os s)\<rparr>) s = (r, s') \<Longrightarrow>
     locs s' = locs s \<and> (\<exists>b. files (os s') = (files (os s))(p \<mapsto> b))"
  by (auto simp: locs_def write_file_def)

lemma subprocess_frame:
  assumes "subprocess_run_check env (ffmpeg_command i d) s = (r, s')"
  shows "locs s' = locs s \<and> (files (os s') = files (os s) \<or> (\<exists>b. files (os s') = (files (os s))(d \<mapsto> b)))"
proof -
  obtain r0 o' where run: "run_ffmpeg env (ffmpeg_command i d) (os s) = (r0, o')" by fastforce
  with assms have "s' = s\<lparr>os := o'\<rparr>"
    by (auto simp: subprocess_run_check_def on_os_def split: sum.splits prod.splits)
  with run_ffmpeg_command_files [OF run] show ?thesis by (simp add: locs_def)
qed

lemma detect_loop_path: "wr_path (snd (snd (detect_loop env m cap out))) = wr_path out"
proof (induction env m cap out rule: detect_loop.induct)
  case (1 env m cap out)
  then show ?case
    by (subst detect_loop.simps) (auto split: prod.splits option.splits sum.splits list.splits)
qed

lemma process_video_frame:
  assumes "process_video env i outp m s = (r, s')"
  shows "locs s' = locs s \<and> (files (os s') = files (os s) \<or> (\<exists>b. files (os s') = (files (os s))(outp \<mapsto> b)))"
proof -
  let ?cap = "video_capture env i (os s)"
  let ?out = "video_writer env outp (VideoWriter_fourcc (CHR ''m'') (CHR ''p'') (CHR ''4'') (CHR ''v''))
                (cap_fps ?cap) (int (cap_width ?cap), int (cap_height ?cap))"
  obtain rl c' w' where loop: "detect_loop env m ?cap ?out = (rl, c', w')" by (metis prod.exhaust)
  have "wr_path w' = outp"
    using detect_loop_path [of env m ?cap ?out] loop by (simp add: video_writer_def Let_def)
  with assms loop show ?thesis
    by (auto simp: process_video_def locs_def writer_release_def write_file_def Let_def
             split: if_splits sum.splits)
qed

lemma present_frame: "present p s = (r, s') \<Longrightarrow> locs s' = locs s \<and> files (os s') = files (os s)"
  by (auto simp: present_def bindP_def seqP_def locs_def split: if_splits sum.splits)

lemma upload_body_tmp_inv:
  "hoare (\<lambda>s. tmp_inv f0 s \<and> locs s = (None, None, None)) (upload_body env model name content)
     (\<lambda>_. tmp_inv f0) (\<lambda>_. tmp_inv f0)"
  unfolding upload_body_def
  apply (rule hoare_bindP [OF hoare_create_temp [where L = "(None, None, None)" and L' = "\<lambda>p. (Some p, None, None)"]])
   apply (auto simp: locs_def tracked_def)[1]
  subgoal for inp
    apply (rule hoare_nonempty_pre)
    apply (rule hoare_seqP [OF hoare_tracked_write [where L = "(Some inp, None, None)" and p = inp]])
      apply (blast dest: write_frame)
     apply (simp add: locs_def tracked_def)
    apply (rule hoare_seqP [OF hoare_tracked_write [where L = "(Some inp, None, None)" and p = inp]])
      apply (blast dest: emit_frame)
     apply (simp add: locs_def tracked_def)
    apply (rule hoare_bindP [OF hoare_create_temp [where L = "(Some inp, None, None)" and L' = "\<lambda>p. (Some inp, Some p, None)"]])
     apply (auto simp: locs_def tracked_def)[1]
    subgoal for down
      apply (rule hoare_nonempty_pre)
      apply (rule hoare_seqP [OF hoare_tracked_write [where L = "(Some inp, Some down, None)" and p = down]])
        apply (blast dest: subprocess_frame)
       apply (simp add: locs_def tracked_def)
      apply (rule hoare_seqP [OF hoare_tracked_write [where L = "(Some inp, Some down, None)" and p = down]])
        apply (blast dest: emit_frame)
       apply (simp add: locs_def tracked_def)
      apply (rule hoare_bindP [OF hoare_create_temp [where L = "(Some inp, Some down, None)" and L' = "\<lambda>p. (Some inp, Some down, Some p)"]])
       apply (auto simp: locs_def tracked_def)[1]
      subgoal for outp
        apply (rule hoare_nonempty_pre)
        apply (rule hoare_seqP [OF hoare_tracked_write [where L = "(Some inp, Some down, Some outp)" and p = outp]])
          apply (blast dest: process_video_frame)
         apply (simp add: locs_def tracked_def)
        apply (rule hoare_strengthen [OF hoare_tracked_write [where L = "(Some inp, Some down, Some outp)" and p = outp]])
            apply (blast dest: present_frame)
           apply (simp_all add: locs_def tracked_def)
        done
      done
    done
  done

section \<open>Cleanup on every exit path\<close>

lemma keeps_emit: "(\<And>s. P s \<Longrightarrow> P (s\<lparr>ui := ui s @ [u]\<rparr>)) \<Longrightarrow> hoare P (emit u) (\<lambda>_. P) E"
  by (simp add: hoare_def)

lemma remove_tmp_eq:
  "remove_tmp var s =
     (Inr (), s\<lparr>os := (os s)\<lparr>files := (\<lambda>q. if var s = Some q \<and> q \<noteq> [] then None else files (os s) q)\<rparr>\<rparr>)"
proof (cases "var s")
  case None
  then show ?thesis by (simp add: remove_tmp_def)
next
  case (Some p)
  show ?thesis
  proof (cases "p \<noteq> [] \<and> path_exists (os s) p")
    case True
    with Some show ?thesis
      by (auto simp: remove_tmp_def on_os_def os_remove_def path_exists_def fun_eq_iff)
  next
    case False
    then have "(\<lambda>q. if Some p = Some q \<and> q \<noteq> [] then None else files (os s) q) = files (os s)"
      by (auto simp: path_exists_def fun_eq_iff)
    moreover have "remove_tmp var s = (Inr (), s)"
      unfolding remove_tmp_def Some option.case by (rule if_not_P [OF False])
    ultimately show ?thesis using Some by simp
  qed
qed

lemma cleanup_restores:
  assumes "tmp_inv f0 s"
  shows "\<exists>s'. cleanup s = (Inr (), s') \<and> files (os s') = f0"
proof -
  have "files (os (snd (cleanup s))) = f0"
    using assms by (auto simp: cleanup_def seqP_def bindP_def remove_tmp_eq tmp_inv_def tracked_def fun_eq_iff)
  moreover have "fst (cleanup s) = Inr ()"
    by (simp add: cleanup_def seqP_def bindP_def remove_tmp_eq)
  ultimately show ?thesis by (metis prod.collapse)
qed

lemma hoare_cleanup: "hoare (tmp_inv f0) cleanup (\<lambda>_ s. files (os s) = f0) (\<lambda>_ s. files (os s) = f0)"
  by (rule hoareI) (use cleanup_restores in fastforce)

lemma tmp_inv_ui [simp]: "tmp_inv f0 (s\<lparr>ui := u\<rparr>) = tmp_inv f0 s"
  by (simp add: tmp_inv_def tracked_def)

lemma main_handler_tmp_inv: "hoare (tmp_inv f0) (main_handler e) (\<lambda>_. tmp_inv f0) (\<lambda>_. tmp_inv f0)"
  by (cases e) (auto simp: main_handler_def intro!: keeps_intros keeps_emit)

lemma upload_flow_files:
  "hoare (\<lambda>s. files (os s) = F) (upload_flow env model up) (\<lambda>_ s. files (os s) = F) (\<lambda>_ s. files (os s) = F)"
proof (cases up)
  case None
  then show ?thesis by (simp add: upload_flow_def hoare_def)
next
  case (Some u)
  obtain name content where u: "u = (name, content)" by fastforce
  have body: "hoare (\<lambda>s. tmp_inv F s \<and> locs s = (None, None, None))
                (catchP (upload_body env model name content) main_handler) (\<lambda>_. tmp_inv F) (\<lambda>_. tmp_inv F)"
    by (rule hoare_catchP [OF upload_body_tmp_inv main_handler_tmp_inv])
  have tef: "hoare (\<lambda>s. tmp_inv F s \<and> locs s = (None, None, None))
          (try_except_finally (upload_body env model name content) main_handler cleanup)
          (\<lambda>_ s. files (os s) = F) (\<lambda>_ s. files (os s) = F)"
    unfolding try_except_finally_def by (rule hoare_finallyP [OF body hoare_cleanup])
  show ?thesis
    unfolding upload_flow_def Some u prod.case option.case
    by (rule hoare_seqP [OF hoare_modifyP tef]) (simp add: tmp_inv_def tracked_def locs_def)
qed

lemma load_model_files:
  "hoare (\<lambda>s. files (os s) = F) (load_model env p) (\<lambda>_ s. files (os s) = F) (\<lambda>_ s. files (os s) = F)"
  by (auto simp: hoare_def load_model_def split: option.splits sum.splits)

lemma main_files:
  "hoare (\<lambda>s. files (os s) = F) (main env up) (\<lambda>_ s. files (os s) = F) (\<lambda>_ s. files (os s) = F)"
  unfolding main_def
  by (intro keeps_intros keeps_emit load_model_files upload_flow_files) simp_all

text \<open>
  C1. Temporary-file safety. Whatever the upload, the model, the external tools and the
  state of the file store, a run of \<^verbatim>\<open>main()\<close> leaves the file store exactly as it
  found it: every temporary file the run creates (upload, transcoded video, output) is
  removed on every exit path, successful, handled error or propagated exception, and no
  other file is changed.
\<close>

theorem main_restores_files: "files (os (snd (main env up s))) = files (os s)"
  using keeps_run [OF main_files [of "files (os s)" env up]] by simp

end
