(* ===== verification/Scenarios.thy ===== *)
theory Scenarios
  imports Session
begin

text \<open>
  Concrete inputs for the properties: a file store holding the model file and an
  uploaded clip, a fresh session, and an environment in which every external tool
  behaves as in a normal run (the model adds its own value to each frame, ffmpeg copies
  its input, the encoder writes one byte per frame). The variants change one tool each:
  a model file that does not load, an ffmpeg that fails, a model that raises on the second frame, a plotter that returns one frame at another size.
\<close>

definition demo_os :: os_state where
  "demo_os = \<lparr>files = [''best.pt'' \<mapsto> [1], ''/tmp/in.mp4'' \<mapsto> [1, 2, 3]], tmpdir = ''/tmp'',
              rng = (\<lambda>n. replicate (Suc n) (CHR ''x'')), rng_pos = 0\<rparr>"

definition demo_sess :: "nat sess" where
  "demo_sess = \<lparr>os = demo_os, cache = Map.empty, ui = [], input_video_path = None,
                downscaled_video_path = None, output_video_path = None\<rparr>"

definition demo_env :: "(nat, nat, nat) env" where
  "demo_env =
     \<lparr>yolo = (\<lambda>p b. case b of None \<Rightarrow> Inl (FileNotFoundError p) | Some _ \<Rightarrow> Inr 7),
      ffmpeg_tool = (\<lambda>args inp. case inp of
                        None \<Rightarrow> Inr (1, ''No such file or directory'', None)
                      | Some b \<Rightarrow> Inr (0, '''', Some b)),
      decode = (\<lambda>b. if b = [] then None
                    else Some \<lparr>vid_width = 1920, vid_height = 1080, vid_fps = 30,
                               vid_frames = map unat b\<rparr>),
      predict = (\<lambda>m f sz c. Inr [f + m]),
      plot = (\<lambda>r. r),
      frame_dims = (\<lambda>f. (1920, 1080)),
      writer_ok = (\<lambda>t fps d. True),
      stream = (\<lambda>t fps d fs. 0 # map of_nat fs),
      encode = (\<lambda>t fps d fs. map of_nat fs)\<rparr>"

definition bad_model_env :: "(nat, nat, nat) env" where
  "bad_model_env = demo_env\<lparr>yolo := (\<lambda>p b. Inl (RuntimeError ''invalid model file''))\<rparr>"

definition ffmpeg_fail_env :: "(nat, nat, nat) env" where
  "ffmpeg_fail_env =
     demo_env\<lparr>ffmpeg_tool := (\<lambda>args inp. Inr (1, ''Invalid data found when processing input'', None))\<rparr>"

definition predict_fail_env :: "(nat, nat, nat) env" where
  "predict_fail_env =
     demo_env\<lparr>predict := (\<lambda>m f sz c. if f = 2 then Inl (RuntimeError ''CUDA out of memory'') else Inr [f + m])\<rparr>"

definition resize_env :: "(nat, nat, nat) env" where
  "resize_env = demo_env\<lparr>frame_dims := (\<lambda>f. if f = 9 then (640, 360) else (1920, 1080))\<rparr>"

text \<open>A store without the model file, and one in which the first name \<^verbatim>\<open>tempfile\<close>
  tries for a \<^verbatim>\<open>.mp4\<close> file is taken.\<close>

definition no_model_sess :: "nat sess" where
  "no_model_sess = demo_sess\<lparr>os := demo_os\<lparr>files := [''/tmp/in.mp4'' \<mapsto> [1, 2, 3]]\<rparr>\<rparr>"

definition busy_sess :: "nat sess" where
  "busy_sess = demo_sess\<lparr>os := demo_os\<lparr>files := [''/tmp/tmpx.mp4'' \<mapsto> []]\<rparr>\<rparr>"

lemmas demo_defs = demo_sess_def demo_os_def demo_env_def bad_model_env_def ffmpeg_fail_env_def
  predict_fail_env_def no_model_sess_def busy_sess_def
  resize_env_def

end
