(* ===== verification/Pipeline.thy ===== *)
theory Pipeline
  imports Session
begin

text \<open>
  One run of \<^verbatim>\<open>main()\<close> on each of its branches, as the user sees it: the elements
  the page shows, in order, and what is left in the file store. The branches are the
  missing model file (lines 51--54), a model that fails to load (lines 58--60), an
  upload whose transcoding fails (lines 89 and 111--113), and a successful upload
  (lines 96--107).
\<close>

section \<open>Startup\<close>

text \<open>
  C12. When the model file \<^verbatim>\<open>best.pt\<close> is missing, a run shows the title, the
  description, the fixed error message and the hint, and stops: no uploader is shown and
  nothing else changes.
\<close>

theorem main_missing_model:
  assumes "\<not> path_exists (os s) model_path"
  shows "main env up s =
           (Inr (), s\<lparr>ui := ui s @
              [Title ''YOLOv11 Object Detection'',
               Write ''This app uses a pre-configured model to detect objects in an uploaded video.'',
               Error ''Error: The model file was not found at the path: best.pt'',
               Info (''Please make sure the '' @ [QUOTE] @ ''best.pt'' @ [QUOTE] @
                     '' file is located in the correct directory.'')]\<rparr>)"
  using assms by (simp add: main_def model_path_def seqP_def bindP_def ifP_def)

text \<open>The run of \<^verbatim>\<open>main()\<close> when the model file exists but loading it raises an
  \<^verbatim>\<open>Exception\<close>: the error is shown and the run stops before the uploader.\<close>

lemma main_load_error:
  assumes "path_exists (os s) model_path" and "cache s model_path = None"
    and "yolo env model_path (files (os s) model_path) = Inl e" and "is_Exception e"
  shows "main env up s =
           (Inr (), s\<lparr>ui := ui s @
              [Title ''YOLOv11 Object Detection'',
               Write ''This app uses a pre-configured model to detect objects in an uploaded video.'',
               Error (''An error occurred while loading the model: '' @ exc_str e)]\<rparr>)"
  using assms by (simp add: main_def load_model_def catchP_def bindP_def seqP_def ifP_def)

section \<open>A failing transcoder\<close>

text \<open>
  C14. The scenario of the specification in which the upload is not a valid video: ffmpeg
  exits with a non-zero status. The run completes normally, shows the progress message,
  then the two error messages of lines 112--113 with ffmpeg's diagnostics verbatim, and
  leaves no temporary file behind. Nothing of the detection stage runs.
\<close>

theorem upload_flow_ffmpeg_failure:
  assumes "files (os s) (tmp_name (os s) 0 (snd (splitext name))) = None"
    and "files (os s) (tmp_name (os s) (Suc 0) ''.mp4'') = None"
    and "tmp_name (os s) 0 (snd (splitext name)) \<noteq> tmp_name (os s) (Suc 0) ''.mp4''"
    and "\<forall>args. ffmpeg_tool env args (Some content) = Inr (rc, err, out)" and "rc \<noteq> 0"
  shows "fst (upload_flow env model (Some (name, content)) s) = Inr () \<and>
         ui (snd (upload_flow env model (Some (name, content)) s)) =
           ui s @ [Info ''Standardizing video with FFmpeg...'',
                   Error ''FFmpeg failed to process the video. This can happen with certain video formats.'',
                   Error (''FFmpeg Error Details: '' @ err)] \<and>
         files (os (snd (upload_flow env model (Some (name, content)) s))) = files (os s)"
proof -
  have "fst (upload_flow env model (Some (name, content)) s) = Inr () \<and>
        ui (snd (upload_flow env model (Some (name, content)) s)) =
          ui s @ [Info ''Standardizing video with FFmpeg...'',
                  Error ''FFmpeg failed to process the video. This can happen with certain video formats.'',
                  Error (''FFmpeg Error Details: '' @ err)]"
    using assms unfolding tmp_name_def
    by (simp add: upload_flow_def upload_body_def try_except_finally_def finallyP_def catchP_def
      bindP_def seqP_def create_temp_def on_os_def named_temporary_file_first subprocess_run_check_def
      run_ffmpeg_def write_file_def main_handler_def cleanup_def remove_tmp_eq Let_def ffmpeg_command_def
      split: option.splits)
  moreover have "files (os (snd (upload_flow env model (Some (name, content)) s))) = files (os s)"
    using keeps_run [OF upload_flow_files [of "files (os s)" env model]] by simp
  ultimately show ?thesis by blast
qed

text \<open>
  C16. The scenario of a successful upload, state \<^verbatim>\<open>Ready\<close> of the specification. ffmpeg
  succeeds, the transcoded file decodes to a video of even positive size, the encoder
  accepts it, and the model renders every frame at that size. Then the run shows the two
  progress messages, the video and a download button that both hold the encoding of
  exactly the rendered frames, and the run leaves no temporary file behind.
\<close>

theorem upload_flow_success:
  assumes "files (os s) (tmp_name (os s) 0 (snd (splitext name))) = None"
    and "files (os s) (tmp_name (os s) (Suc 0) ''.mp4'') = None"
    and "files (os s) (tmp_name (os s) (Suc (Suc 0)) ''.mp4'') = None"
    and "distinct [tmp_name (os s) 0 (snd (splitext name)), tmp_name (os s) (Suc 0) ''.mp4'',
                   tmp_name (os s) (Suc (Suc 0)) ''.mp4'']"
    and "\<forall>args. ffmpeg_tool env args (Some content) = Inr (0, err, Some tb)"
    and "decode env tb = Some v"
    and "0 < vid_width v" and "0 < vid_height v" and "even (vid_width v)" and "even (vid_height v)"
    and "writer_ok env (VideoWriter_fourcc (CHR ''m'') (CHR ''p'') (CHR ''4'') (CHR ''v'')) (vid_fps v)
           (int (vid_width v), int (vid_height v))"
    and "render_frames env model (vid_frames v) = Inr gs"
    and "\<forall>g \<in> set gs. frame_dims env g = (int (vid_width v), int (vid_height v))"
    and "encode env (VideoWriter_fourcc (CHR ''m'') (CHR ''p'') (CHR ''4'') (CHR ''v'')) (vid_fps v)
           (int (vid_width v), int (vid_height v)) gs = out"
    and "out \<noteq> []"
  shows "fst (upload_flow env model (Some (name, content)) s) = Inr () \<and>
         ui (snd (upload_flow env model (Some (name, content)) s)) =
           ui s @ [Info ''Standardizing video with FFmpeg...'',
                   Info ''Processing the standardized video for object detection...'',
                   Video out,
                   DownloadButton ''Download Processed Video'' out ''video_with_detections.mp4'' ''video/mp4''] \<and>
         files (os (snd (upload_flow env model (Some (name, content)) s))) = files (os s)"
proof -
  have ev: "int (vid_width v) AND -2 = int (vid_width v)" "int (vid_height v) AND -2 = int (vid_height v)"
    using assms by (simp_all add: int_and_minus_two)
  have pv: "process_video env i o' model s' = (Inr (), s'\<lparr>os := write_file o' out (os s')\<rparr>)"
    if "files (os s') i = Some tb" for i o' and s' :: "'a sess"
    using process_video_success [OF that assms(6)] assms ev by (simp add: video_writer_def Let_def)
  from assms(4) have d: "tmp_name (os s) (Suc 0) ''.mp4'' \<noteq> tmp_name (os s) 0 (snd (splitext name))"
    "tmp_name (os s) (Suc (Suc 0)) ''.mp4'' \<noteq> tmp_name (os s) 0 (snd (splitext name))"
    "tmp_name (os s) (Suc (Suc 0)) ''.mp4'' \<noteq> tmp_name (os s) (Suc 0) ''.mp4''" by auto
  have "fst (upload_flow env model (Some (name, content)) s) = Inr () \<and>
        ui (snd (upload_flow env model (Some (name, content)) s)) =
           ui s @ [Info ''Standardizing video with FFmpeg...'',
                   Info ''Processing the standardized video for object detection...'',
                   Video out,
                   DownloadButton ''Download Processed Video'' out ''video_with_detections.mp4'' ''video/mp4'']"
    using assms(1-5,15) d unfolding tmp_name_def
    by (simp add: upload_flow_def upload_body_def try_except_finally_def finallyP_def catchP_def
      bindP_def seqP_def create_temp_def on_os_def named_temporary_file_first subprocess_run_check_def
      run_ffmpeg_def write_file_def cleanup_def remove_tmp_eq Let_def ffmpeg_command_def
      pv present_def ifP_def path_exists_def getsize_def read_file_def split: option.splits)
  moreover have "files (os (snd (upload_flow env model (Some (name, content)) s))) = files (os s)"
    using keeps_run [OF upload_flow_files [of "files (os s)" env model]] by simp
  ultimately show ?thesis by blast
qed

end
