(* ===== verification/Reruns.thy ===== *)
theory Reruns
  imports Pipeline
begin

text \<open>
  Streamlit runs the whole script again on every interaction of the user: a browser
  session is a sequence of runs of \<^verbatim>\<open>main()\<close>. Each run starts with an empty page
  and may see a different upload, while the file store and the process-wide resource
  cache of \<^verbatim>\<open>@st.cache_resource\<close> carry over from one run to the next.
  \<open>session_run env s0 s\<close> says that \<open>s\<close> is reached from \<open>s0\<close> by such runs. The
  invariants are proved by rule induction over it; the statements that leave the cache
  alone are shown to keep every property of it, rule by rule along the program text.
\<close>

inductive session_run :: "('m, 'r, 'f) env \<Rightarrow> 'm sess \<Rightarrow> 'm sess \<Rightarrow> bool" for env s0 where
  start: "session_run env s0 s0"
| rerun: "session_run env s0 s \<Longrightarrow> session_run env s0 (snd (main env up (s\<lparr>ui := []\<rparr>)))"

definition cache_grows :: "(path \<rightharpoonup> 'm) \<Rightarrow> 'm sess \<Rightarrow> bool" where
  "cache_grows c s \<longleftrightarrow> (\<forall>q m. c q = Some m \<longrightarrow> cache s q = Some m) \<and> dom (cache s) \<subseteq> insert model_path (dom c)"

section \<open>Statements that leave the cache alone\<close>

lemma keeps_read [keeps_intros]: "hoare P (\<lambda>s. (f s, s)) (\<lambda>_. P) (\<lambda>_. P)"
  by (simp add: hoare_def split: sum.splits)

lemma keeps_on_os: "(\<And>s o'. P s \<Longrightarrow> P (s\<lparr>os := o'\<rparr>)) \<Longrightarrow> hoare P (on_os f) (\<lambda>_. P) (\<lambda>_. P)"
  by (auto simp: hoare_def on_os_def split: prod.splits sum.splits)

lemma keeps_remove_tmp: "(\<And>s o'. P s \<Longrightarrow> P (s\<lparr>os := o'\<rparr>)) \<Longrightarrow> hoare P (remove_tmp var) (\<lambda>_. P) E"
  by (simp add: hoare_def remove_tmp_eq)

lemma keeps_main_handler:
  "(\<And>s u. P s \<Longrightarrow> P (s\<lparr>ui := u\<rparr>)) \<Longrightarrow> hoare P (main_handler e) (\<lambda>_. P) (\<lambda>_. P)"
  by (cases e) (auto simp: main_handler_def intro!: keeps_intros keeps_emit)

lemma process_video_cache: "cache (snd (process_video env i outp m s)) = cache s"
  by (auto simp: process_video_def Let_def split: sum.splits prod.splits)

lemma keeps_process_video:
  "hoare (\<lambda>s. Q (cache s)) (process_video env i outp m) (\<lambda>_ s. Q (cache s)) (\<lambda>_ s. Q (cache s))"
  using process_video_cache [of env i outp m] by (auto simp: hoare_def) (metis snd_conv)+

lemma upload_flow_keeps_cache:
  "hoare (\<lambda>s. Q (cache s)) (upload_flow env model up) (\<lambda>_ s. Q (cache s)) (\<lambda>_ s. Q (cache s))"
  unfolding upload_flow_def upload_body_def try_except_finally_def create_temp_def cleanup_def
    present_def subprocess_run_check_def
  by (intro keeps_intros keeps_emit keeps_on_os keeps_remove_tmp keeps_main_handler keeps_process_video) simp_all

lemma load_model_cache_grows:
  "hoare (cache_grows c) (load_model env model_path) (\<lambda>_. cache_grows c) (\<lambda>_. cache_grows c)"
  by (auto simp: hoare_def cache_grows_def load_model_def split: option.splits sum.splits)

lemma upload_flow_cache_grows:
  "hoare (cache_grows c) (upload_flow env model up) (\<lambda>_. cache_grows c) (\<lambda>_. cache_grows c)"
  unfolding cache_grows_def [abs_def] by (rule upload_flow_keeps_cache)

lemma main_cache_grows:
  "hoare (cache_grows c) (main env up) (\<lambda>_. cache_grows c) (\<lambda>_. cache_grows c)"
  unfolding main_def
  by (intro keeps_intros keeps_emit load_model_cache_grows upload_flow_cache_grows)
     (simp_all add: cache_grows_def)

section \<open>Invariants of a session\<close>


text \<open>
  C13. A model file that fails to load is loaded again on every rerun: the failure is
  never cached, so each interaction calls \<^verbatim>\<open>YOLO(best.pt)\<close> again and shows the same
  error again, and no run ever reaches the uploader.
\<close>

theorem session_run_load_retried:
  assumes run: "session_run env s0 s" and ex: "path_exists (os s0) model_path"
    and nc: "cache s0 model_path = None"
    and fail: "\<forall>b. yolo env model_path b = Inl e" and exc: "is_Exception e"
  shows "cache s model_path = None \<and>
         main env up (s\<lparr>ui := []\<rparr>) =
           (Inr (), s\<lparr>ui := [Title ''YOLOv11 Object Detection'',
              Write ''This app uses a pre-configured model to detect objects in an uploaded video.'',
              Error (''An error occurred while loading the model: '' @ exc_str e)]\<rparr>)"
proof -
  have inv: "cache s model_path = None \<and> files (os s) = files (os s0)"
    using run
  proof (induction rule: session_run.induct)
    case start
    then show ?case using nc by simp
  next
    case (rerun s up)
    have "path_exists (os (s\<lparr>ui := []\<rparr>)) model_path" using rerun.IH ex by (simp add: path_exists_def)
    with main_load_error [of "s\<lparr>ui := []\<rparr>" env e up] rerun.IH fail exc show ?case by simp
  qed
  moreover from inv ex have "path_exists (os (s\<lparr>ui := []\<rparr>)) model_path" by (simp add: path_exists_def)
  ultimately show ?thesis using main_load_error [of "s\<lparr>ui := []\<rparr>" env e up] fail exc by simp
qed

text \<open>
  C15. Invariant of a browser session: across any sequence of reruns, with any uploads,
  the file store never changes (no temporary file accumulates), and the resource cache
  only grows by the model of \<^verbatim>\<open>best.pt\<close>: an entry, once made, is never replaced.
\<close>

theorem session_run_inv:
  assumes "session_run env s0 s"
  shows "files (os s) = files (os s0) \<and> (\<forall>q m. cache s0 q = Some m \<longrightarrow> cache s q = Some m) \<and>
         dom (cache s) \<subseteq> insert model_path (dom (cache s0))"
  using assms
proof (induction rule: session_run.induct)
  case start
  then show ?case by blast
next
  case (rerun s up)
  let ?s = "s\<lparr>ui := []\<rparr>"
  from rerun.IH have "cache_grows (cache s0) ?s" by (simp add: cache_grows_def)
  then have "cache_grows (cache s0) (snd (main env up ?s))"
    by (rule keeps_run [OF main_cache_grows])
  moreover have "files (os (snd (main env up ?s))) = files (os ?s)"
    by (rule keeps_run [OF main_files]) (rule refl)
  ultimately show ?case using rerun.IH by (simp add: cache_grows_def)
qed

end
