(* ===== verification/Phases.thy ===== *)
theory Phases
  imports Session
begin

text \<open>
  The life cycle of one upload, as the specification describes it (section 4.4):
  \<open>Uploaded \<rightarrow> Transcoding \<rightarrow> Detecting \<rightarrow> Ready | Failed\<close>, strictly linear, with
  \<open>Failed\<close> entered from any stage before \<open>Ready\<close>. The program shows which stage it is
  in only through the elements it puts on the page, so the state machine \<open>msg_step\<close>
  reads those elements: the two progress messages enter \<open>Transcoding\<close> and
  \<open>Detecting\<close>, the video enters \<open>Ready\<close> and the download button stays there, and an
  error enters \<open>Failed\<close>. \<open>run_trace\<close> is a path of the machine, and \<open>trace_phase\<close>
  the executable version of it. A Hoare-style proof along \<^verbatim>\<open>upload_body\<close> shows that
  every upload that returns normally has shown a path from \<open>Uploaded\<close> that ends in
  \<open>Ready\<close> or \<open>Failed\<close>.
\<close>

datatype phase = Uploaded | Transcoding | Detecting | Ready | Failed

inductive msg_step :: "phase \<Rightarrow> ui \<Rightarrow> phase \<Rightarrow> bool" where
  to_transcoding: "msg_step Uploaded (Info ''Standardizing video with FFmpeg...'') Transcoding"
| to_detecting: "msg_step Transcoding (Info ''Processing the standardized video for object detection...'') Detecting"
| to_ready: "msg_step Detecting (Video b) Ready"
| download: "msg_step Ready (DownloadButton l b f m) Ready"
| to_failed: "p \<noteq> Ready \<Longrightarrow> msg_step p (Error msg) Failed"

inductive run_trace :: "phase \<Rightarrow> ui list \<Rightarrow> phase \<Rightarrow> bool" where
  stay: "run_trace p [] p"
| step: "msg_step p u q \<Longrightarrow> run_trace q us r \<Longrightarrow> run_trace p (u # us) r"

fun next_phase :: "phase \<Rightarrow> ui \<Rightarrow> phase option" where
  "next_phase p (Error msg) = (if p = Ready then None else Some Failed)"
| "next_phase Uploaded (Info m) =
     (if m = ''Standardizing video with FFmpeg...'' then Some Transcoding else None)"
| "next_phase Transcoding (Info m) =
     (if m = ''Processing the standardized video for object detection...'' then Some Detecting else None)"
| "next_phase Detecting (Video b) = Some Ready"
| "next_phase Ready (DownloadButton l b f m) = Some Ready"
| "next_phase p u = None"

fun trace_phase :: "phase \<Rightarrow> ui list \<Rightarrow> phase option" where
  "trace_phase p [] = Some p"
| "trace_phase p (u # us) = (case next_phase p u of None \<Rightarrow> None | Some q \<Rightarrow> trace_phase q us)"

text \<open>The page shows \<open>U\<close> followed by a path of the machine from \<open>Uploaded\<close> to \<open>p\<close>.\<close>

definition at_phase :: "ui list \<Rightarrow> phase \<Rightarrow> 'm sess \<Rightarrow> bool" where
  "at_phase U p s \<longleftrightarrow> take (length U) (ui s) = U \<and> run_trace Uploaded (drop (length U) (ui s)) p"

inductive_simps run_trace_Nil: "run_trace p [] q"
inductive_simps run_trace_Cons: "run_trace p (u # us) q"

section \<open>The machine and its executable version\<close>

lemma msg_step_next_phase: "msg_step p u q \<longleftrightarrow> next_phase p u = Some q"
  by (cases p; cases u) (auto simp: msg_step.simps)

lemma run_trace_trace_phase: "run_trace p us q \<longleftrightarrow> trace_phase p us = Some q"
  by (induction us arbitrary: p)
     (auto simp: run_trace_Nil run_trace_Cons msg_step_next_phase split: option.splits)

lemma run_trace_snoc: "run_trace p us q \<Longrightarrow> msg_step q u r \<Longrightarrow> run_trace p (us @ [u]) r"
  by (induction rule: run_trace.induct) (auto intro: run_trace.intros)

section \<open>Statements and the phase of the page\<close>

lemma at_phase_emit:
  assumes "at_phase U p s" and "msg_step p u q"
  shows "at_phase U q (s\<lparr>ui := ui s @ [u]\<rparr>)"
proof -
  from assms(1) have "ui s = U @ drop (length U) (ui s)"
    unfolding at_phase_def by (metis append_take_drop_id)
  then obtain us where "ui s = U @ us" by blast
  with assms show ?thesis by (simp add: at_phase_def run_trace_snoc)
qed

lemma at_phase_frame [simp]:
  "at_phase U p (s\<lparr>os := o'\<rparr>) = at_phase U p s"
  "at_phase U p (s\<lparr>input_video_path := x\<rparr>) = at_phase U p s"
  "at_phase U p (s\<lparr>downscaled_video_path := x\<rparr>) = at_phase U p s"
  "at_phase U p (s\<lparr>output_video_path := x\<rparr>) = at_phase U p s"
  by (simp_all add: at_phase_def)

lemma hoare_emit_step: "msg_step p u q \<Longrightarrow> hoare (at_phase U p) (emit u) (\<lambda>_. at_phase U q) E"
  by (simp add: hoare_def at_phase_emit)

lemma hoare_ui_frame:
  fixes m :: "('e, 'a, 'm sess) py"
  assumes "\<And>s r s'. m s = (r, s') \<Longrightarrow> ui s' = ui s"
  shows "hoare (at_phase U p) m (\<lambda>_. at_phase U p) (\<lambda>_. at_phase U p)"
  using assms by (fastforce simp: hoare_def at_phase_def split: sum.splits)

lemma create_temp_ui:
  "(\<And>p s. ui (assign p s) = ui s) \<Longrightarrow> create_temp suf assign s = (r, s') \<Longrightarrow> ui s' = ui s"
  by (auto simp: create_temp_def on_os_def bindP_def seqP_def split: prod.splits sum.splits)

lemma subprocess_run_check_ui: "subprocess_run_check env cmd s = (r, s') \<Longrightarrow> ui s' = ui s"
  by (auto simp: subprocess_run_check_def on_os_def split: prod.splits sum.splits)

lemma cleanup_ui: "cleanup s = (r, s') \<Longrightarrow> ui s' = ui s"
  by (auto simp: cleanup_def seqP_def bindP_def remove_tmp_eq)

lemma hoare_finallyP_split:
  "hoare P m Q E \<Longrightarrow> (\<And>a. hoare (Q a) f (\<lambda>_. Q' a) E') \<Longrightarrow> (\<And>e. hoare (E e) f (\<lambda>_. E' e) E') \<Longrightarrow>
     hoare P (finallyP m f) Q' E'"
  by (fastforce simp: hoare_def finallyP_def split: prod.splits sum.splits)

lemma hoare_ui_keep:
  fixes m :: "('e, 'a, 'm sess) py"
  assumes "\<And>s r s'. m s = (r, s') \<Longrightarrow> ui s' = ui s" and "p \<noteq> Ready" and "p \<noteq> Failed"
  shows "hoare (at_phase U p) m (\<lambda>_. at_phase U p)
           (\<lambda>_ s. at_phase U Uploaded s \<or> at_phase U Transcoding s \<or> at_phase U Detecting s)"
proof -
  have h: "hoare (at_phase U p) m (\<lambda>_. at_phase U p) (\<lambda>_. at_phase U p)"
    using assms(1) by (rule hoare_ui_frame)
  have act: "at_phase U Uploaded s \<or> at_phase U Transcoding s \<or> at_phase U Detecting s"
    if "at_phase U p s" for s
    using that assms(2,3) by (cases p) simp_all
  show ?thesis by (rule hoare_strengthen [OF h]) (simp_all add: act)
qed

section \<open>The stages of an upload\<close>

lemma hoare_create_temp_detecting:
  fixes assign :: "path \<Rightarrow> 'm sess \<Rightarrow> 'm sess"
  assumes "\<And>p s. ui (assign p s) = ui s \<and> os (assign p s) = os s"
  shows "hoare (at_phase U Detecting) (create_temp suf assign)
           (\<lambda>p s. at_phase U Detecting s \<and> files (os s) p = Some [])
           (\<lambda>_ s. at_phase U Uploaded s \<or> at_phase U Transcoding s \<or> at_phase U Detecting s)"
proof (rule hoareI)
  fix s r s' assume pre: "at_phase U Detecting s" and run: "create_temp suf assign s = (r, s')"
  obtain r0 o' where nt: "named_temporary_file suf (os s) = (r0, o')" by fastforce
  have ui: "ui s' = ui s" using create_temp_ui [OF _ run] assms by blast
  show "case r of Inl e \<Rightarrow> at_phase U Uploaded s' \<or> at_phase U Transcoding s' \<or> at_phase U Detecting s'
        | Inr p \<Rightarrow> at_phase U Detecting s' \<and> files (os s') p = Some []"
  proof (cases r0)
    case (Inl e)
    with nt run have "r = Inl e" by (simp add: create_temp_def on_os_def bindP_def)
    with pre ui show ?thesis by (simp add: at_phase_def)
  next
    case (Inr p)
    with nt run have "r = Inr p" "s' = assign p (s\<lparr>os := o'\<rparr>)"
      by (simp_all add: create_temp_def on_os_def bindP_def seqP_def)
    moreover from Inr nt have "files o' p = Some []" by (simp add: named_temporary_file_fresh)
    ultimately show ?thesis using pre ui assms by (simp add: at_phase_def)
  qed
qed

text \<open>\<^verbatim>\<open>process_video\<close> either leaves the page in \<open>Detecting\<close> or reports an error
  without touching the output file, which \<^verbatim>\<open>tempfile\<close> created empty.\<close>

lemma process_video_phase:
  "hoare (\<lambda>s. at_phase U Detecting s \<and> files (os s) outp = Some []) (process_video env i outp m)
     (\<lambda>_ s. (at_phase U Failed s \<and> files (os s) outp = Some []) \<or> at_phase U Detecting s)
     (\<lambda>_ s. at_phase U Uploaded s \<or> at_phase U Transcoding s \<or> at_phase U Detecting s)"
proof (rule hoareI)
  fix s r s' assume pre: "at_phase U Detecting s \<and> files (os s) outp = Some []"
    and run: "process_video env i outp m s = (r, s')"
  have err: "at_phase U Failed (s\<lparr>ui := ui s @ [Error msg]\<rparr>)" for msg
    using pre by (intro at_phase_emit) (auto intro: msg_step.intros)
  show "case r of Inl e \<Rightarrow> at_phase U Uploaded s' \<or> at_phase U Transcoding s' \<or> at_phase U Detecting s'
        | Inr a \<Rightarrow> (at_phase U Failed s' \<and> files (os s') outp = Some []) \<or> at_phase U Detecting s'"
    using run pre err
    by (auto simp: process_video_def Let_def split: if_splits prod.splits sum.splits)
qed

text \<open>An empty output file after an error gives a second error, never the video.\<close>

lemma present_phase:
  fixes E :: "pyexc \<Rightarrow> 'm sess \<Rightarrow> bool"
  shows "hoare (\<lambda>s. (at_phase U Failed s \<and> files (os s) p = Some []) \<or> at_phase U Detecting s) (present p)
     (\<lambda>_ s. at_phase U Ready s \<or> at_phase U Failed s) E"
proof (rule hoareI)
  fix s :: "'m sess" and r s'
  assume pre: "(at_phase U Failed s \<and> files (os s) p = Some []) \<or> at_phase U Detecting s"
    and run: "present p s = (r, s')"
  have err: "at_phase U Failed (s\<lparr>ui := ui s @ [Error msg]\<rparr>)" for msg
    using pre by (auto intro: at_phase_emit msg_step.intros)
  show "case r of Inl e \<Rightarrow> E e s' | Inr a \<Rightarrow> at_phase U Ready s' \<or> at_phase U Failed s'"
  proof (cases "path_exists (os s) p \<and> (case getsize (os s) p of Inr n \<Rightarrow> 0 < n | Inl _ \<Rightarrow> False)")
    case True
    with pre have det: "at_phase U Detecting s" by (auto simp: getsize_def)
    from True obtain b where b: "files (os s) p = Some b" by (auto simp: path_exists_def)
    have "at_phase U Ready (s\<lparr>ui := ui s @ [Video b]\<rparr>)"
      using det by (auto intro: at_phase_emit msg_step.intros)
    from at_phase_emit [OF this, of "DownloadButton ''Download Processed Video'' b
                 ''video_with_detections.mp4'' ''video/mp4''" Ready]
    have "at_phase U Ready (s\<lparr>ui := ui s @ [Video b, DownloadButton ''Download Processed Video'' b
                 ''video_with_detections.mp4'' ''video/mp4'']\<rparr>)"
      by (simp add: msg_step.simps)
    with True b run show ?thesis by (auto simp: present_def read_file_def bindP_def seqP_def)
  next
    case False
    with run err show ?thesis by (auto simp: present_def)
  qed
qed

lemma main_handler_phase:
  fixes U :: "ui list"
  shows "hoare (\<lambda>s :: 'm sess. at_phase U Uploaded s \<or> at_phase U Transcoding s \<or> at_phase U Detecting s)
     (main_handler e) (\<lambda>_ s. at_phase U Ready s \<or> at_phase U Failed s)
     (\<lambda>_ s. at_phase U Uploaded s \<or> at_phase U Transcoding s \<or> at_phase U Detecting s)"
proof (rule hoareI)
  fix s :: "'m sess" and r s'
  assume pre: "at_phase U Uploaded s \<or> at_phase U Transcoding s \<or> at_phase U Detecting s"
    and run: "main_handler e s = (r, s')"
  have err: "at_phase U Failed (s\<lparr>ui := ui s @ [Error msg]\<rparr>)" for msg
    using pre by (auto intro: at_phase_emit msg_step.intros)
  have err2: "at_phase U Failed (s\<lparr>ui := ui s @ [Error m1, Error m2]\<rparr>)" for m1 m2
    using at_phase_emit [OF err [of m1], of "Error m2" Failed] by (simp add: msg_step.simps)
  show "case r of Inl e \<Rightarrow> at_phase U Uploaded s' \<or> at_phase U Transcoding s' \<or> at_phase U Detecting s'
        | Inr a \<Rightarrow> at_phase U Ready s' \<or> at_phase U Failed s'"
    using run err err2 pre
    by (cases e) (auto simp: main_handler_def seqP_def bindP_def split: if_splits)
qed

lemma upload_body_phase:
  "hoare (at_phase U Uploaded) (upload_body env model name content)
     (\<lambda>_ s. at_phase U Ready s \<or> at_phase U Failed s)
     (\<lambda>_ s. at_phase U Uploaded s \<or> at_phase U Transcoding s \<or> at_phase U Detecting s)"
  unfolding upload_body_def
  apply (rule hoare_bindP [OF hoare_ui_keep [where p = Uploaded]])
     apply (erule create_temp_ui [rotated]; simp)
    apply simp_all
  apply (rule hoare_seqP [OF hoare_ui_keep [where p = Uploaded]])
     apply (auto simp: write_file_def)[3]
  apply (rule hoare_seqP [OF hoare_emit_step [OF msg_step.to_transcoding]])
  apply (rule hoare_bindP [OF hoare_ui_keep [where p = Transcoding]])
     apply (erule create_temp_ui [rotated]; simp)
    apply simp_all
  apply (rule hoare_seqP [OF hoare_ui_keep [where p = Transcoding]])
     apply (erule subprocess_run_check_ui)
    apply simp_all
  apply (rule hoare_seqP [OF hoare_emit_step [OF msg_step.to_detecting]])
  apply (rule hoare_bindP [OF hoare_create_temp_detecting])
   apply simp
  apply (rule hoare_seqP [OF process_video_phase present_phase])
  done

lemma cleanup_Inr: "cleanup s = (r, s') \<Longrightarrow> r = Inr ()"
  by (auto simp: cleanup_def seqP_def bindP_def remove_tmp_eq)

lemma cleanup_phase:
  fixes E :: "pyexc \<Rightarrow> 'm sess \<Rightarrow> bool"
  shows "hoare (\<lambda>s. at_phase U Ready s \<or> at_phase U Failed s) cleanup
     (\<lambda>_ s. at_phase U Ready s \<or> at_phase U Failed s) E"
proof (rule hoareI)
  fix s :: "'m sess" and r s'
  assume "at_phase U Ready s \<or> at_phase U Failed s" and run: "cleanup s = (r, s')"
  moreover have "ui s' = ui s" using run by (rule cleanup_ui)
  moreover have "r = Inr ()" using run by (rule cleanup_Inr)
  ultimately show "case r of Inl e \<Rightarrow> E e s' | Inr a \<Rightarrow> at_phase U Ready s' \<or> at_phase U Failed s'"
    by (simp add: at_phase_def)
qed

section \<open>Every completed upload ends in Ready or Failed\<close>

text \<open>
  C18. The life cycle of the specification holds of the page: whatever the upload, the
  model and the tools, an upload that returns normally has shown, after what the page
  already held, a path of the state machine from \<open>Uploaded\<close> that ends in \<open>Ready\<close> (the
  video and its download button) or in \<open>Failed\<close> (one or more errors, nothing after
  them), with the two progress messages in order before the video.
\<close>

theorem upload_flow_phases:
  assumes "fst (upload_flow env model (Some (name, content)) s) = Inr ()"
  shows "at_phase (ui s) Ready (snd (upload_flow env model (Some (name, content)) s)) \<or>
         at_phase (ui s) Failed (snd (upload_flow env model (Some (name, content)) s))"
proof -
  have body: "hoare (at_phase (ui s) Uploaded)
      (finallyP (catchP (upload_body env model name content) main_handler) cleanup)
      (\<lambda>_ t. at_phase (ui s) Ready t \<or> at_phase (ui s) Failed t) (\<lambda>_ _. True)"
    by (rule hoare_finallyP_split [OF hoare_catchP [OF upload_body_phase main_handler_phase] cleanup_phase])
       (simp add: hoare_def)
  have "hoare (\<lambda>t. t = s) (upload_flow env model (Some (name, content)))
      (\<lambda>_ t. at_phase (ui s) Ready t \<or> at_phase (ui s) Failed t) (\<lambda>_ _. True)"
    unfolding upload_flow_def option.case prod.case try_except_finally_def
    by (rule hoare_seqP [OF hoare_modifyP body]) (simp add: at_phase_def run_trace_Nil)
  from hoareD [OF this refl, of "fst (upload_flow env model (Some (name, content)) s)"
      "snd (upload_flow env model (Some (name, content)) s)"] assms
  show ?thesis by (simp add: prod_eq_iff)
qed

end
