(* ===== verification/Spec2Isabelle.thy ===== *)
theory Spec2Isabelle
  imports Scenarios Reruns Phases
begin

text \<open>
  \<^bold>\<open>A verification development of \<^verbatim>\<open>src/deploy.py\<close>.\<close>

  The program is a Streamlit page that detects objects in an uploaded video. Every user
  interaction reruns the script's \<^verbatim>\<open>main()\<close> (lines 45--125). A run does the following:
  \<^item> it checks that the model file \<^verbatim>\<open>best.pt\<close> exists;
  \<^item> it loads the model through the process-wide cache \<^verbatim>\<open>load_model\<close> (lines 8--11);
  \<^item> it shows the uploader;
  \<^item> for an uploaded video, inside one \<^verbatim>\<open>try/except/finally\<close> statement:
    \<^enum> it saves the upload to a temporary file;
    \<^enum> it transcodes that file with an \<^verbatim>\<open>ffmpeg\<close> subprocess into a second temporary
      file (lines 81--89), capping the long side at 1280 pixels;
    \<^enum> it runs \<^verbatim>\<open>process_video\<close> (lines 13--43) into a third one: OpenCV reads each
      frame, YOLO detects objects in it, and each annotated frame is written out;
    \<^enum> it shows the result and a download button;
  \<^item> its \<^verbatim>\<open>finally\<close> block removes the three temporary files.

  \<^medskip>\<^bold>\<open>Theories.\<close>
  \<^descr>[\<open>Prelude\<close>] The statement monad.
    \<^item> A Python statement is a function \<open>'s \<Rightarrow> ('e + 'a) \<times> 's\<close>: \<open>Inl\<close> is a raised exception.
    \<^item> The combinators for sequencing, \<^verbatim>\<open>if\<close>, \<^verbatim>\<open>try/except\<close> and \<^verbatim>\<open>finally\<close>.
    \<^item> A Hoare judgement with one postcondition for normal and one for exceptional exit.
    \<^item> The rule collections \<open>py_simps\<close>, \<open>fs_simps\<close> and \<open>keeps_intros\<close>.
  \<^descr>[\<open>Runtime\<close>] The Python, OS and library behaviour the program relies on.
    None of it is repository code; it is written from the libraries' documented
    behaviour.
    \<^item> The exception classes (\<open>pyexc\<close>).
    \<^item> The Streamlit elements a run shows (\<open>ui\<close>).
    \<^item> The file store with \<^verbatim>\<open>tempfile.NamedTemporaryFile\<close>
      (\<open>named_temporary_file\<close>, at most \<open>TMP_MAX\<close> = 238328 name attempts, the value of
      \<^verbatim>\<open>os.TMP_MAX\<close> on Linux), \<^verbatim>\<open>os.path\<close> and \<^verbatim>\<open>os.remove\<close>.
    \<^item> The record \<open>env\<close> of the external collaborators, kept abstract. These are the YOLO
      constructor, prediction and plotting, the ffmpeg binary, the video decoder, the
      bytes an unreleased and a released writer leave in its file, and whether the
      encoder accepts a codec and size.
    \<^item> The session state \<open>sess\<close>: the file store, the resource cache, the elements shown
      so far, and the three path variables of \<^verbatim>\<open>main\<close>.
  \<^descr>[\<open>ModelLoader\<close>] \<open>load_model\<close>, with \<^verbatim>\<open>@st.cache_resource\<close> as a map from arguments to
    models (C3--C5).
  \<^descr>[\<open>Transcoder\<close>] The command of lines 81--87 (\<open>ffmpeg_command\<close>) and its scale filter
    (C6--C9).
    \<^item> The filter's two expressions are a syntax tree (\<open>scale_w_expr\<close>, \<open>scale_h_expr\<close>).
    \<^item> The scale filter is modelled as ffmpeg evaluates it: double evaluation with
      truncation, then the rounding of \<^verbatim>\<open>-2\<close> to an even size (\<open>scale_dims\<close>).
    \<^item> \<^verbatim>\<open>subprocess.run(..., check=True)\<close> is \<open>subprocess_run_check\<close>. The command's
      \<^verbatim>\<open>-y\<close> flag is what lets ffmpeg overwrite the temporary output that already exists.
  \<^descr>[\<open>Detector\<close>] \<open>process_video\<close> (C2, C10, C11, C17).
    \<^item> OpenCV's capture and writer are records. The writer cuts odd sizes to even and
      drops frames of another size. When it opens it writes its header to the file
      (line 27), the accepted frames follow (line 40), and \<^verbatim>\<open>release()\<close> finalises the
      file (line 43); the frames reach the file store when the loop ends, since nothing
      reads the file before.
    \<^item> The frame loop of lines 33--40 is \<open>detect_loop\<close>, a \<open>function\<close> that terminates on
      the number of frames left.
    \<^item> The loop is proved to refine \<open>render_frames\<close>: the annotated frames in order, or
      the first exception.
  \<^descr>[\<open>Session\<close>] \<open>main\<close> and its parts.
    \<^item> \<open>upload_body\<close> is the \<^verbatim>\<open>try\<close> block, \<open>main_handler\<close> the two \<^verbatim>\<open>except\<close> clauses,
      \<open>cleanup\<close> the \<^verbatim>\<open>finally\<close> block, and \<open>upload_flow\<close> the whole statement.
    \<^item> The invariant \<open>tmp_inv\<close> (the files differ from the initial ones only at tracked,
      newly created paths) holds on every exit of every statement.
    \<^item> From it, C1: a run leaves the file store exactly as it found it.
  \<^descr>[\<open>Pipeline\<close>] One run of \<^verbatim>\<open>main\<close> on each of its branches, as the page shows it.
    \<^item> The missing model file (C12) and a model that raises while loading.
    \<^item> The specification's scenario of an upload that ffmpeg rejects (C14).
    \<^item> The successful upload: the page shows exactly the encoded rendered frames (C16).
  \<^descr>[\<open>Reruns\<close>] Streamlit's reruns of the script.
    \<^item> The inductive relation \<open>session_run\<close> holds a sequence of runs. Each run starts with
      an empty page and may see any upload; the file store and the resource cache carry
      over between runs.
    \<^item> By rule induction: the files never change and the cache only gains the model
      (C15).
    \<^item> A failing model file is loaded again, and its error shown again, on every rerun
      (C13).
  \<^descr>[\<open>Phases\<close>] The life cycle of an upload from the specification.
    \<^item> An inductive state machine \<open>msg_step\<close> over the elements the page shows, its paths
      \<open>run_trace\<close>, and an executable equivalent \<open>trace_phase\<close>.
    \<^item> A Hoare-style proof along the upload: every upload that returns normally ends in
      \<open>Ready\<close> or \<open>Failed\<close> (C18).
  \<^descr>[\<open>Scenarios\<close>] Concrete file stores, sessions and environments for the witnesses.
  \<^descr>[\<open>Spec2Isabelle\<close>] This header and the witness of each property with hypotheses:
    an instance in which the hypotheses are discharged by evaluation.

  \<^medskip>\<^bold>\<open>Bounds and fuel.\<close>
  \<^item> The only search that could run without end is \<^verbatim>\<open>mkstemp\<close>'s search for a fresh name.
    CPython bounds it by \<^verbatim>\<open>os.TMP_MAX\<close> attempts and then raises \<^verbatim>\<open>FileExistsError\<close>.
    The model takes the same bound as fuel, \<open>TMP_MAX\<close> = 238328 as on Linux, and the
    lemma \<open>mkstemp_try_succeeds\<close> shows that it returns a file whenever a free name is
    among the attempts.
  \<^item> The frame loop is bounded by the number of frames of the file.
  \<^item> Widths and heights are unbounded integers, as in Python.
  \<^item> The codec tag is a 32-bit word, as in OpenCV.

  \<^medskip>\<^bold>\<open>Not modelled.\<close>
  \<^item> The pixels: frames are values of an arbitrary type, and the detector, plotting,
    decoder and encoder are uninterpreted functions of \<open>env\<close>.
  \<^item> Streamlit's rendering: a run's output is the list of elements it emits.
  \<^item> The text of exceptions: \<open>exc_str\<close> gives the message an exception carries, without
    CPython's \<^verbatim>\<open>[Errno n]\<close> prefix; the stdout of ffmpeg, which the program never reads.
  \<^item> Concurrency between sessions.
  \<^item> Timing.
\<close>

section \<open>Witnesses\<close>


theorem load_model_memoised_witness:
  "load_model demo_env model_path demo_sess = (Inr 7, demo_sess\<lparr>cache := [model_path \<mapsto> 7]\<rparr>) \<and>
   load_model bad_model_env model_path (demo_sess\<lparr>cache := [model_path \<mapsto> 7]\<rparr>) =
     (Inr 7, demo_sess\<lparr>cache := [model_path \<mapsto> 7]\<rparr>)"
proof -
  have h: "load_model demo_env model_path demo_sess = (Inr 7, demo_sess\<lparr>cache := [model_path \<mapsto> 7]\<rparr>)"
    by (simp add: load_model_def demo_defs model_path_def)
  show ?thesis using h load_model_memoised [OF h, of bad_model_env] by simp
qed

theorem load_model_failure_not_cached_witness:
  "load_model bad_model_env model_path demo_sess = (Inl (RuntimeError ''invalid model file''), demo_sess) \<and>
   cache demo_sess model_path = None"
proof -
  have h: "load_model bad_model_env model_path demo_sess = (Inl (RuntimeError ''invalid model file''), demo_sess)"
    by (simp add: load_model_def demo_defs)
  show ?thesis using h load_model_failure_not_cached [OF h] by simp
qed

theorem load_model_cache_stable_witness:
  "dom (cache (snd (load_model demo_env model_path demo_sess))) \<subseteq> {model_path}"
  using load_model_cache_stable [of demo_env model_path demo_sess "fst (load_model demo_env model_path demo_sess)"
      "snd (load_model demo_env model_path demo_sess)"]
  by (simp add: demo_sess_def)

theorem scale_dims_even_long_side_witness:
  "even (fst (scale_dims 1920 1080)) \<and> even (snd (scale_dims 1920 1080)) \<and> fst (scale_dims 1920 1080) = 1280"
  using scale_dims_even_long_side [of 1920 1080] by simp

theorem scale_dims_proportional_witness:
  "\<bar>snd (scale_dims 1000 333) * 1000 - 1280 * 333\<bar> \<le> 1000"
  using scale_dims_proportional [of 1000 333] by simp

theorem scale_dims_degenerate_witness: "snd (scale_dims 1281 1) = 0"
  using scale_dims_degenerate [of 1 1281] by simp

theorem ffmpeg_failure_raises_witness:
  "subprocess_run_check ffmpeg_fail_env (ffmpeg_command ''/tmp/in.mp4'' ''/tmp/out.mp4'') demo_sess =
     (Inl (CalledProcessError 1 (ffmpeg_command ''/tmp/in.mp4'' ''/tmp/out.mp4'') ''''
             ''Invalid data found when processing input''), demo_sess)"
  using ffmpeg_failure_raises [where env = ffmpeg_fail_env and i = "''/tmp/in.mp4''" and d = "''/tmp/out.mp4''"
      and s = demo_sess and rc = 1 and err = "''Invalid data found when processing input''" and out = None]
  by (simp add: ffmpeg_fail_env_def)

theorem process_video_renders_all_frames_witness:
  "process_video demo_env ''/tmp/in.mp4'' ''/tmp/out.mp4'' 7 demo_sess =
     (Inr (), demo_sess\<lparr>os := write_file ''/tmp/out.mp4'' [8, 9, 10] demo_os\<rparr>)"
  using process_video_renders_all_frames [where env = demo_env and i = "''/tmp/in.mp4''" and outp = "''/tmp/out.mp4''"
      and m = 7 and s = demo_sess and b = "[1, 2, 3]"
      and v = "\<lparr>vid_width = 1920, vid_height = 1080, vid_fps = 30, vid_frames = [1, 2, 3]\<rparr>"
      and gs = "[8, 9, 10]"]
  by (simp add: demo_defs video_writer_def IMG_SIZE_def CONF_THRESHOLD_def)

theorem process_video_drops_resized_frame_witness:
  "\<exists>fs. process_video resize_env ''/tmp/in.mp4'' ''/tmp/out.mp4'' 7 demo_sess =
          (Inr (), demo_sess\<lparr>os := write_file ''/tmp/out.mp4''
             (encode resize_env (VideoWriter_fourcc (CHR ''m'') (CHR ''p'') (CHR ''4'') (CHR ''v'')) 30
                (1920 AND -2, 1080 AND -2) fs) demo_os\<rparr>) \<and>
        9 \<notin> set fs \<and> length fs < 3"
  using process_video_drops_resized_frame [where env = resize_env and i = "''/tmp/in.mp4''"
      and outp = "''/tmp/out.mp4''" and m = 7 and s = demo_sess and b = "[1, 2, 3]"
      and v = "\<lparr>vid_width = 1920, vid_height = 1080, vid_fps = 30, vid_frames = [1, 2, 3]\<rparr>"
      and gs = "[8, 9, 10]" and g = 9]
  by (simp add: demo_defs video_writer_def IMG_SIZE_def CONF_THRESHOLD_def) (simp only: numeral_3_eq_3)

theorem process_video_capture_failure_witness:
  "process_video demo_env ''/tmp/missing.mp4'' ''/tmp/out.mp4'' 7 demo_sess =
     (Inr (), demo_sess\<lparr>ui := [Error ''Error: Could not open pre-processed video file at /tmp/missing.mp4'']\<rparr>)"
  using process_video_capture_failure [where env = demo_env and i = "''/tmp/missing.mp4''" and s = demo_sess
      and outp = "''/tmp/out.mp4''" and m = 7]
  by (simp add: demo_defs video_capture_def closed_capture_def)

theorem process_video_inference_error_witness:
  "\<exists>fs. process_video predict_fail_env ''/tmp/in.mp4'' ''/tmp/out.mp4'' 7 demo_sess =
          (Inl (RuntimeError ''CUDA out of memory''), demo_sess\<lparr>os := write_file ''/tmp/out.mp4''
             (stream predict_fail_env (VideoWriter_fourcc (CHR ''m'') (CHR ''p'') (CHR ''4'') (CHR ''v'')) 30
                (1920 AND -2, 1080 AND -2) fs) demo_os\<rparr>) \<and>
        length fs < 3"
  using process_video_inference_error [where env = predict_fail_env and i = "''/tmp/in.mp4''"
      and outp = "''/tmp/out.mp4''" and m = 7 and s = demo_sess and b = "[1, 2, 3]"
      and v = "\<lparr>vid_width = 1920, vid_height = 1080, vid_fps = 30, vid_frames = [1, 2, 3]\<rparr>"
      and e = "RuntimeError ''CUDA out of memory''"]
  by (simp add: demo_defs video_writer_def IMG_SIZE_def CONF_THRESHOLD_def) (simp only: numeral_3_eq_3)

theorem main_missing_model_witness:
  "main demo_env (Some (''clip.mp4'', [1, 2, 3])) no_model_sess =
     (Inr (), no_model_sess\<lparr>ui :=
        [Title ''YOLOv11 Object Detection'',
         Write ''This app uses a pre-configured model to detect objects in an uploaded video.'',
         Error ''Error: The model file was not found at the path: best.pt'',
         Info (''Please make sure the '' @ [QUOTE] @ ''best.pt'' @ [QUOTE] @
               '' file is located in the correct directory.'')]\<rparr>)"
  using main_missing_model [where s = no_model_sess and env = demo_env and up = "Some (''clip.mp4'', [1, 2, 3])"]
  by (simp add: demo_defs path_exists_def model_path_def)

theorem upload_flow_ffmpeg_failure_witness:
  "upload_flow ffmpeg_fail_env 7 (Some (''clip.avi'', [1, 2, 3])) demo_sess =
     (Inr (), snd (upload_flow ffmpeg_fail_env 7 (Some (''clip.avi'', [1, 2, 3])) demo_sess)) \<and>
   ui (snd (upload_flow ffmpeg_fail_env 7 (Some (''clip.avi'', [1, 2, 3])) demo_sess)) =
     [Info ''Standardizing video with FFmpeg...'',
      Error ''FFmpeg failed to process the video. This can happen with certain video formats.'',
      Error ''FFmpeg Error Details: Invalid data found when processing input''] \<and>
   files (os (snd (upload_flow ffmpeg_fail_env 7 (Some (''clip.avi'', [1, 2, 3])) demo_sess))) = files demo_os"
  using upload_flow_ffmpeg_failure [where s = demo_sess and env = ffmpeg_fail_env and model = 7
      and name = "''clip.avi''" and content = "[1, 2, 3]" and rc = 1
      and err = "''Invalid data found when processing input''" and out = None]
  by (simp add: demo_defs splitext_def prod_eq_iff tmp_name_def)

theorem upload_flow_success_witness:
  "fst (upload_flow demo_env 7 (Some (''clip.mp4'', [1, 2, 3])) demo_sess) = Inr () \<and>
   ui (snd (upload_flow demo_env 7 (Some (''clip.mp4'', [1, 2, 3])) demo_sess)) =
     [Info ''Standardizing video with FFmpeg...'',
      Info ''Processing the standardized video for object detection...'',
      Video [8, 9, 10],
      DownloadButton ''Download Processed Video'' [8, 9, 10] ''video_with_detections.mp4'' ''video/mp4''] \<and>
   files (os (snd (upload_flow demo_env 7 (Some (''clip.mp4'', [1, 2, 3])) demo_sess))) = files demo_os"
  using upload_flow_success [where s = demo_sess and env = demo_env and model = 7
      and name = "''clip.mp4''" and content = "[1, 2, 3]" and err = "''''" and tb = "[1, 2, 3]"
      and v = "\<lparr>vid_width = 1920, vid_height = 1080, vid_fps = 30, vid_frames = [1, 2, 3]\<rparr>"
      and gs = "[8, 9, 10]" and out = "[8, 9, 10]"]
  by (simp add: demo_defs splitext_def tmp_name_def IMG_SIZE_def CONF_THRESHOLD_def)

theorem session_run_load_retried_witness:
  "main bad_model_env None ((snd (main bad_model_env (Some (''clip.mp4'', [1])) (demo_sess\<lparr>ui := []\<rparr>)))\<lparr>ui := []\<rparr>) =
     (Inr (), demo_sess\<lparr>ui := [Title ''YOLOv11 Object Detection'',
        Write ''This app uses a pre-configured model to detect objects in an uploaded video.'',
        Error ''An error occurred while loading the model: invalid model file'']\<rparr>)"
proof -
  let ?s1 = "snd (main bad_model_env (Some (''clip.mp4'', [1])) (demo_sess\<lparr>ui := []\<rparr>))"
  have run: "session_run bad_model_env demo_sess ?s1"
    by (rule session_run.rerun [OF session_run.start])
  have "cache ?s1 model_path = None \<and>
        main bad_model_env None (?s1\<lparr>ui := []\<rparr>) =
          (Inr (), ?s1\<lparr>ui := [Title ''YOLOv11 Object Detection'',
             Write ''This app uses a pre-configured model to detect objects in an uploaded video.'',
             Error (''An error occurred while loading the model: '' @ exc_str (RuntimeError ''invalid model file''))]\<rparr>)"
    by (rule session_run_load_retried [OF run])
       (simp_all add: demo_defs path_exists_def model_path_def)
  moreover have e: "?s1\<lparr>ui := L\<rparr> = demo_sess\<lparr>ui := L\<rparr>" for L
    by (simp add: demo_defs main_def load_model_def path_exists_def model_path_def seqP_def bindP_def ifP_def catchP_def)
  ultimately show ?thesis by (simp add: e)
qed

theorem session_run_inv_witness:
  "files (os (snd (main demo_env (Some (''clip.mp4'', [1, 2, 3])) (demo_sess\<lparr>ui := []\<rparr>)))) = files demo_os \<and>
   dom (cache (snd (main demo_env (Some (''clip.mp4'', [1, 2, 3])) (demo_sess\<lparr>ui := []\<rparr>)))) \<subseteq> {model_path}"
  using session_run_inv [OF session_run.rerun [OF session_run.start,
      of demo_env demo_sess "Some (''clip.mp4'', [1, 2, 3])"]]
  by (simp add: demo_sess_def)

theorem upload_flow_phases_witness:
  "at_phase [] Ready (snd (upload_flow ffmpeg_fail_env 7 (Some (''clip.avi'', [1, 2, 3])) demo_sess)) \<or>
   at_phase [] Failed (snd (upload_flow ffmpeg_fail_env 7 (Some (''clip.avi'', [1, 2, 3])) demo_sess))"
proof -
  have "fst (upload_flow ffmpeg_fail_env 7 (Some (''clip.avi'', [1, 2, 3])) demo_sess) = Inr ()"
    by (simp add: demo_defs splitext_def upload_flow_def upload_body_def try_except_finally_def
        finallyP_def catchP_def bindP_def seqP_def create_temp_def on_os_def named_temporary_file_first
        subprocess_run_check_def run_ffmpeg_def write_file_def main_handler_def cleanup_def
        remove_tmp_eq Let_def ffmpeg_command_def)
  from upload_flow_phases [OF this] show ?thesis by (simp add: demo_sess_def)
qed

end
